theory Spec2Isabelle
  imports Main "HOL-Library.Word" "HOL-Library.List_Lexorder" "HOL-Library.Char_ord"
begin

section \<open>Failures\<close>

text \<open>
  The error hierarchy of the repository: \<open>CPGBackupCtlFailure\<close> is the base class
  (common.hxx), \<open>CArchiveIssue\<close> and \<open>CCatalogIssue\<close> derive from it. A failure
  object carries its dynamic class and the string returned by \<open>what()\<close>.
\<close>

datatype failure_class = CPGBackupCtlFailure | CArchiveIssue | CCatalogIssue

datatype failure = Failure (fclass: failure_class) (what: string)

text \<open>
  What propagates out of a function: an object of the hierarchy, or a bare
  \<open>std::exception\<close> (the result of \<open>throw e\<close> in a \<open>catch (exception& e)\<close> handler).
\<close>

datatype raised = Domain failure | StdException

text \<open>
  \<open>throw e;\<close> inside \<open>catch (CPGBackupCtlFailure& e)\<close>: the exception object is
  copy-initialised from the static type of the operand, so the caller receives a
  \<open>CPGBackupCtlFailure\<close> holding the same \<open>errstr\<close>.
\<close>

definition sliced :: "failure \<Rightarrow> failure" where
  "sliced e = Failure CPGBackupCtlFailure (what e)"

section \<open>Descriptors (descr.hxx)\<close>

datatype con_attno =
    SQL_CON_ARCHIVE_ID_ATTNO | SQL_CON_TYPE_ATTNO | SQL_CON_DSN_ATTNO
  | SQL_CON_PGHOST_ATTNO | SQL_CON_PGPORT_ATTNO | SQL_CON_PGUSER_ATTNO
  | SQL_CON_PGDATABASE_ATTNO

record ConnectionDescr =
  con_archive_id :: int
  con_type :: string
  pghost :: string
  pgport :: int
  pguser :: string
  pgdatabase :: string
  dsn :: string
  con_affectedAttributes :: "con_attno list"

definition CONNECTION_TYPE_BASEBACKUP :: string where
  "CONNECTION_TYPE_BASEBACKUP = ''basebackup''"

definition CONNECTION_TYPE_STREAMER :: string where
  "CONNECTION_TYPE_STREAMER = ''streamer''"

definition CONNECTION_TYPE_UNKNOWN :: string where
  "CONNECTION_TYPE_UNKNOWN = ''unknown''"

definition new_ConnectionDescr :: ConnectionDescr where
  "new_ConnectionDescr =
     \<lparr> con_archive_id = -1, con_type = CONNECTION_TYPE_UNKNOWN, pghost = '''',
       pgport = -1, pguser = '''', pgdatabase = '''', dsn = '''',
       con_affectedAttributes = [] \<rparr>"

datatype BackupProfileCompressType =
    BACKUP_COMPRESS_TYPE_NONE | BACKUP_COMPRESS_TYPE_GZIP | BACKUP_COMPRESS_TYPE_ZSTD
  | BACKUP_COMPRESS_TYPE_PBZIP | BACKUP_COMPRESS_TYPE_PLAIN

datatype bck_prof_attno =
    SQL_BCK_PROF_NAME_ATTNO | SQL_BCK_PROF_COMPRESS_TYPE_ATTNO
  | SQL_BCK_PROF_MAX_RATE_ATTNO | SQL_BCK_PROF_LABEL_ATTNO
  | SQL_BCK_PROF_FAST_CHKPT_ATTNO | SQL_BCK_PROF_INCL_WAL_ATTNO
  | SQL_BCK_PROF_WAIT_FOR_WAL_ATTNO

record BackupProfileDescr =
  profile_id :: int
  prof_name :: string
  compress_type :: BackupProfileCompressType
  max_rate :: "32 word"
  prof_label :: string
  fast_checkpoint :: bool
  include_wal :: bool
  wait_for_wal :: bool
  noverify_checksums :: bool
  prof_affectedAttributes :: "bck_prof_attno list"

definition new_BackupProfileDescr :: BackupProfileDescr where
  "new_BackupProfileDescr =
     \<lparr> profile_id = -1, prof_name = '''', compress_type = BACKUP_COMPRESS_TYPE_NONE,
       max_rate = 0, prof_label = ''PG_BCK_CTL BASEBACKUP'', fast_checkpoint = False,
       include_wal = False, wait_for_wal = True, noverify_checksums = False,
       prof_affectedAttributes = [] \<rparr>"

record BackupTablespaceDescr =
  spc_id :: int
  backup_id :: int
  spcoid :: "32 word"
  spclocation :: string
  spcsize :: "64 word"

definition BASEBACKUP_STATUS_IN_PROGRESS :: string where
  "BASEBACKUP_STATUS_IN_PROGRESS = ''in progress''"

definition BASEBACKUP_STATUS_ABORTED :: string where
  "BASEBACKUP_STATUS_ABORTED = ''aborted''"

definition BASEBACKUP_STATUS_READY :: string where
  "BASEBACKUP_STATUS_READY = ''ready''"

record BaseBackupDescr =
  bb_id :: int
  bb_archive_id :: int
  xlogpos :: string
  xlogposend :: string
  timeline :: int
  bb_label :: string
  fsentry :: string
  started :: string
  stopped :: string
  pinned :: int
  status :: string
  systemid :: string
  wal_segment_size :: "64 word"
  used_profile :: int

datatype CatalogTag =
    EMPTY_DESCR | CREATE_ARCHIVE | CREATE_BACKUP_PROFILE | CREATE_CONNECTION
  | DROP_ARCHIVE | DROP_BACKUP_PROFILE | DROP_CONNECTION | ALTER_ARCHIVE
  | VERIFY_ARCHIVE | START_BASEBACKUP | LIST_ARCHIVE | LIST_BACKUP_PROFILE
  | LIST_BACKUP_PROFILE_DETAIL | LIST_BACKUP_CATALOG | LIST_CONNECTION

datatype ListArchiveOutputMode =
  ARCHIVE_LIST | ARCHIVE_FILTERED_LIST | ARCHIVE_DETAIL_LIST

text \<open>
  A command object: the fields of \<open>CatalogDescr\<close> that \<open>BaseCatalogCommand::copy\<close>
  transfers, the catalog handle of \<open>BaseCatalogCommand\<close> (only whether it is
  \<open>nullptr\<close> matters), and the members that \<open>ListArchiveCatalogCommand\<close> (\<open>mode\<close>)
  and \<open>CreateBackupProfileCatalogCommand\<close> (\<open>profileDescr\<close>) add. The archive
  attribute numbers are the integers of catalog.hxx.
\<close>

record CatalogDescr =
  tag :: CatalogTag
  descr_id :: int
  archive_name :: string
  descr_label :: string
  compression :: bool
  directory :: string
  coninfo :: ConnectionDescr
  backup_profile :: BackupProfileDescr
  detach :: bool
  affectedAttributes :: "int list"
  has_catalog :: bool
  mode :: ListArchiveOutputMode
  profileDescr :: BackupProfileDescr

definition SQL_ARCHIVE_ID_ATTNO :: int where "SQL_ARCHIVE_ID_ATTNO = 0"
definition SQL_ARCHIVE_NAME_ATTNO :: int where "SQL_ARCHIVE_NAME_ATTNO = 1"
definition SQL_ARCHIVE_DIRECTORY_ATTNO :: int where "SQL_ARCHIVE_DIRECTORY_ATTNO = 2"
definition SQL_ARCHIVE_COMPRESSION_ATTNO :: int where "SQL_ARCHIVE_COMPRESSION_ATTNO = 3"

definition new_CatalogDescr :: CatalogDescr where
  "new_CatalogDescr =
     \<lparr> tag = EMPTY_DESCR, descr_id = -1, archive_name = '''', descr_label = '''',
       compression = False, directory = '''', coninfo = new_ConnectionDescr,
       backup_profile = new_BackupProfileDescr, detach = True,
       affectedAttributes = [], has_catalog = False, mode = ARCHIVE_LIST,
       profileDescr = new_BackupProfileDescr \<rparr>"

text \<open>
  Modelled from the spec: \<open>CatalogDescr::setArchiveId\<close>,
  \<open>CatalogDescr::setConnectionType\<close> and \<open>PushableCols::pushAffectedAttribute\<close>,
  which descr.hxx declares and whose bodies are not part of the sources at hand.
  \<open>setArchiveId\<close> gives the descriptor and its connection descriptor the archive
  id (create-connection relies on it "to assign the archive_id to our own object
  instance" before it inserts \<open>coninfo\<close>); \<open>setConnectionType\<close> sets the type of the
  connection descriptor; \<open>pushAffectedAttribute\<close> appends to the affected-attribute
  set.
\<close>

definition setArchiveId :: "int \<Rightarrow> CatalogDescr \<Rightarrow> CatalogDescr" where
  "setArchiveId aid d =
     d\<lparr> descr_id := aid, coninfo := (coninfo d)\<lparr> con_archive_id := aid \<rparr> \<rparr>"

definition setConnectionType :: "string \<Rightarrow> CatalogDescr \<Rightarrow> CatalogDescr" where
  "setConnectionType t d = d\<lparr> coninfo := (coninfo d)\<lparr> con_type := t \<rparr> \<rparr>"

definition pushAffectedAttribute :: "con_attno \<Rightarrow> ConnectionDescr \<Rightarrow> ConnectionDescr" where
  "pushAffectedAttribute a c =
     c\<lparr> con_affectedAttributes := con_affectedAttributes c @ [a] \<rparr>"

section \<open>The catalog store and the world a command runs in\<close>

record archive_row =
  ar_id :: int
  ar_name :: string
  ar_directory :: string
  ar_compression :: bool

record BackupCatalog =
  archives :: "archive_row list"
  connections :: "ConnectionDescr list"
  profiles :: "BackupProfileDescr list"
  backups :: "BaseBackupDescr list"
  tablespaces :: "BackupTablespaceDescr list"

datatype call =
    OpenRW | CloseCatalog
  | StartTransaction | CommitTransaction | RollbackTransaction bool
  | ExistsByName string | Exists string
  | GetCatalogConnection int string | GetCatalogConnections int
  | CreateCatalogConnection ConnectionDescr | DropCatalogConnection string string
  | CreateArchive string | UpdateArchiveAttributes int "int list" | DropArchive string
  | GetArchiveList | GetArchiveListFiltered "int list" | StatCatalog string
  | GetBackupProfile string | GetBackupProfiles
  | CreateBackupProfile BackupProfileDescr | DropBackupProfile string
  | RegisterBasebackup int | AbortBasebackup int | FinalizeBasebackup int
  | RegisterTablespaceForBackup int "32 word"
  | VerifyArchiveDirectory string
  | StreamConnect | StreamIdentify | StreamBasebackup string | StreamStart
  | DirectoryInitialize | DirectoryCreate
  | ReadTablespaceInfo | StepTablespace | BackupTablespace "32 word"
  | StreamEnd | StreamDisconnect

datatype event = Call call | Raised failure

datatype out_item =
    Line string
  | Header string string nat
  | MakeLine string
  | Rule nat
  | StatString string
  | ErrLine string

text \<open>
  The world of one execution: the persistent rows (\<open>store\<close>), the rows as they were
  when the open transaction began (\<open>snapshot\<close>), the transaction and open flags of
  the catalog handle, standard output, and the replication stream's side: the
  descriptor object of the running base backup, the tablespaces the server will
  send, the end position and the target directory. \<open>basebackup_registered\<close> and
  \<open>txinprogress\<close> are the local variables of start-basebackup that its exception
  handlers read.

  \<open>faults\<close> decides which call of a collaborator (catalog store, stream, filesystem)
  fails: \<open>calls\<close> counts the calls that can fail, and the call numbered \<open>n\<close> raises
  \<open>e\<close> when \<open>faults n = Some e\<close>. \<open>trace\<close> logs every call and every failure object
  when it is first thrown. The \<open>RollbackTransaction\<close> event records whether a
  transaction was in progress; a rollback cannot fail and is not counted.
\<close>

record world =
  store :: BackupCatalog
  snapshot :: BackupCatalog
  tx_open :: bool
  opened :: bool
  faults :: "nat \<Rightarrow> failure option"
  calls :: nat
  trace :: "event list"
  stdout :: "out_item list"
  bbp_descr :: BaseBackupDescr
  bbp_tablespaces :: "BackupTablespaceDescr list"
  bbp_xlogposend :: string
  backup_directory :: string
  clock :: string
  basebackup_registered :: bool
  txinprogress :: bool

section \<open>Control flow: sequencing, throw, try and catch\<close>

type_synonym 'a exec = "world \<Rightarrow> (raised + 'a) \<times> world"

definition ret :: "'a \<Rightarrow> 'a exec" where
  "ret x = (\<lambda>s. (Inr x, s))"

definition bnd :: "'a exec \<Rightarrow> ('a \<Rightarrow> 'b exec) \<Rightarrow> 'b exec" where
  "bnd m f = (\<lambda>s. case m s of (Inl e, s') \<Rightarrow> (Inl e, s') | (Inr x, s') \<Rightarrow> f x s')"

definition thn :: "'a exec \<Rightarrow> 'b exec \<Rightarrow> 'b exec" where
  "thn m k = bnd m (\<lambda>_. k)"

text \<open>\<open>throw X(msg)\<close>: a new failure object.\<close>

definition throw_new :: "failure \<Rightarrow> 'a exec" where
  "throw_new e = (\<lambda>s. (Inl (Domain e), s\<lparr> trace := trace s @ [Raised e] \<rparr>))"

text \<open>\<open>throw e\<close> in a handler: what leaves the handler.\<close>

definition rethrow :: "raised \<Rightarrow> 'a exec" where
  "rethrow r = (\<lambda>s. (Inl r, s))"

text \<open>\<open>try { m } catch (CPGBackupCtlFailure& e) { h e }\<close>\<close>

definition try_catch :: "'a exec \<Rightarrow> (failure \<Rightarrow> 'a exec) \<Rightarrow> 'a exec" where
  "try_catch m h =
     (\<lambda>s. case m s of
        (Inl (Domain e), s') \<Rightarrow> h e s'
      | (Inl StdException, s') \<Rightarrow> (Inl StdException, s')
      | (Inr x, s') \<Rightarrow> (Inr x, s'))"

text \<open>\<open>try { m } catch (exception& e) { h }\<close>: catches every exception class.\<close>

definition try_catch_exception :: "'a exec \<Rightarrow> 'a exec \<Rightarrow> 'a exec" where
  "try_catch_exception m h =
     (\<lambda>s. case m s of (Inl e, s') \<Rightarrow> h s' | (Inr x, s') \<Rightarrow> (Inr x, s'))"

definition say :: "out_item \<Rightarrow> unit exec" where
  "say x = (\<lambda>s. (Inr (), s\<lparr> stdout := stdout s @ [x] \<rparr>))"

text \<open>
  A call of a collaborator: it is logged, fails when \<open>faults\<close> says so, and otherwise
  does what it does (which may itself be a failure).
\<close>

definition invoke :: "call \<Rightarrow> (world \<Rightarrow> (failure + 'a) \<times> world) \<Rightarrow> 'a exec" where
  "invoke c f =
     (\<lambda>s. let s1 = s\<lparr> trace := trace s @ [Call c], calls := calls s + 1 \<rparr> in
        case faults s (calls s) of
          Some e \<Rightarrow> (Inl (Domain e), s1\<lparr> trace := trace s1 @ [Raised e] \<rparr>)
        | None \<Rightarrow>
            (case f s1 of
               (Inl e, s2) \<Rightarrow> (Inl (Domain e), s2\<lparr> trace := trace s2 @ [Raised e] \<rparr>)
             | (Inr x, s2) \<Rightarrow> (Inr x, s2)))"

text \<open>A call that reads the store.\<close>

definition query :: "call \<Rightarrow> (BackupCatalog \<Rightarrow> 'a) \<Rightarrow> 'a exec" where
  "query c f = invoke c (\<lambda>s. (Inr (f (store s)), s))"

text \<open>A call that changes the rows of the store.\<close>

definition mutate :: "call \<Rightarrow> (BackupCatalog \<Rightarrow> BackupCatalog) \<Rightarrow> unit exec" where
  "mutate c f = invoke c (\<lambda>s. (Inr (), s\<lparr> store := f (store s) \<rparr>))"

text \<open>
  Modelled from the spec: the replication stream, the streaming directory and the
  archive directory check (sections 4.D and 4.E) are collaborators whose code is
  not part of the sources at hand. A call of one of their operations is logged and
  succeeds or fails; what it transfers is not represented.
\<close>

definition external :: "call \<Rightarrow> unit exec" where
  "external c = invoke c (\<lambda>s. (Inr (), s))"

section \<open>The catalog store\<close>

text \<open>
  Modelled from the spec: the class \<open>BackupCatalog\<close>, whose implementation is not
  part of the sources at hand (the commands that call it are). Section 4.B gives
  the contract of every operation of this section: \<open>open_rw\<close>, \<open>available\<close>, \<open>close\<close>;
  \<open>start_transaction\<close>, \<open>commit\<close>, \<open>rollback\<close>; lookups that return a descriptor with a
  negative id when the row is absent; inserts, partial updates and the cascading
  drop; the base-backup life cycle. A transaction is a snapshot of the rows that
  \<open>rollback\<close> restores; the spec names no failure of \<open>rollback\<close>, so it has none here.
  \<open>(archive_id, type)\<close> is the primary key of a connection (section 3): inserting a
  key that is present is a catalog failure. Any other reason for a store call to
  fail is left to \<open>faults\<close>.
\<close>

definition available :: "world \<Rightarrow> bool" where
  "available s = opened s"

definition open_rw :: "unit exec" where
  "open_rw = invoke OpenRW (\<lambda>s. (Inr (), s\<lparr> opened := True \<rparr>))"

definition close_catalog :: "unit exec" where
  "close_catalog = invoke CloseCatalog (\<lambda>s. (Inr (), s\<lparr> opened := False \<rparr>))"

definition startTransaction :: "unit exec" where
  "startTransaction =
     invoke StartTransaction
       (\<lambda>s. (Inr (), if tx_open s then s
                      else s\<lparr> tx_open := True, snapshot := store s \<rparr>))"

definition commitTransaction :: "unit exec" where
  "commitTransaction = invoke CommitTransaction (\<lambda>s. (Inr (), s\<lparr> tx_open := False \<rparr>))"

definition rollbackTransaction :: "unit exec" where
  "rollbackTransaction =
     (\<lambda>s. (Inr (),
        (if tx_open s then s\<lparr> store := snapshot s, tx_open := False \<rparr> else s)
          \<lparr> trace := trace s @ [Call (RollbackTransaction (tx_open s))] \<rparr>))"

definition descr_of_row :: "archive_row \<Rightarrow> CatalogDescr" where
  "descr_of_row a =
     (setArchiveId (ar_id a) new_CatalogDescr)
       \<lparr> archive_name := ar_name a, directory := ar_directory a,
         compression := ar_compression a \<rparr>"

definition lookup_archive :: "(archive_row \<Rightarrow> bool) \<Rightarrow> BackupCatalog \<Rightarrow> CatalogDescr" where
  "lookup_archive P c =
     (case find P (archives c) of
        None \<Rightarrow> new_CatalogDescr
      | Some a \<Rightarrow> descr_of_row a)"

definition existsByName :: "string \<Rightarrow> CatalogDescr exec" where
  "existsByName name = query (ExistsByName name) (lookup_archive (\<lambda>a. ar_name a = name))"

definition exists_dir :: "string \<Rightarrow> CatalogDescr exec" where
  "exists_dir dir = query (Exists dir) (lookup_archive (\<lambda>a. ar_directory a = dir))"

definition same_key :: "int \<Rightarrow> string \<Rightarrow> ConnectionDescr \<Rightarrow> bool" where
  "same_key aid t c \<longleftrightarrow> con_archive_id c = aid \<and> con_type c = t"

definition fill_con_attr :: "ConnectionDescr \<Rightarrow> con_attno \<Rightarrow> ConnectionDescr \<Rightarrow> ConnectionDescr" where
  "fill_con_attr row a d =
     (case a of
        SQL_CON_ARCHIVE_ID_ATTNO \<Rightarrow> d\<lparr> con_archive_id := con_archive_id row \<rparr>
      | SQL_CON_TYPE_ATTNO \<Rightarrow> d\<lparr> con_type := con_type row \<rparr>
      | SQL_CON_DSN_ATTNO \<Rightarrow> d\<lparr> dsn := dsn row \<rparr>
      | SQL_CON_PGHOST_ATTNO \<Rightarrow> d\<lparr> pghost := pghost row \<rparr>
      | SQL_CON_PGPORT_ATTNO \<Rightarrow> d\<lparr> pgport := pgport row \<rparr>
      | SQL_CON_PGUSER_ATTNO \<Rightarrow> d\<lparr> pguser := pguser row \<rparr>
      | SQL_CON_PGDATABASE_ATTNO \<Rightarrow> d\<lparr> pgdatabase := pgdatabase row \<rparr>)"

text \<open>
  Modelled from the spec: \<open>getCatalogConnection(descr, archive_id, type)\<close>, which is
  not part of the sources at hand, fills the provided descriptor
  with the columns in its affected-attribute set and sets \<open>archive_id = -1\<close> when
  there is no row.
\<close>

definition fill_connection :: "ConnectionDescr \<Rightarrow> int \<Rightarrow> string \<Rightarrow> BackupCatalog \<Rightarrow> ConnectionDescr" where
  "fill_connection d aid t c =
     (case find (same_key aid t) (connections c) of
        None \<Rightarrow> d\<lparr> con_archive_id := -1 \<rparr>
      | Some row \<Rightarrow> fold (fill_con_attr row) (con_affectedAttributes d) d)"

definition getCatalogConnection :: "ConnectionDescr \<Rightarrow> int \<Rightarrow> string \<Rightarrow> ConnectionDescr exec" where
  "getCatalogConnection d aid t = query (GetCatalogConnection aid t) (fill_connection d aid t)"

definition stored_connection :: "ConnectionDescr \<Rightarrow> ConnectionDescr" where
  "stored_connection c = c\<lparr> con_affectedAttributes := [] \<rparr>"

definition pkey_violation :: failure where
  "pkey_violation = Failure CCatalogIssue ''connection already exists''"

definition createCatalogConnection :: "ConnectionDescr \<Rightarrow> unit exec" where
  "createCatalogConnection c =
     invoke (CreateCatalogConnection c)
       (\<lambda>s. if \<exists>r \<in> set (connections (store s)). same_key (con_archive_id c) (con_type c) r
             then (Inl pkey_violation, s)
             else (Inr (), s\<lparr> store := (store s)
                     \<lparr> connections := connections (store s) @ [stored_connection c] \<rparr> \<rparr>))"

definition archive_ids_named :: "string \<Rightarrow> BackupCatalog \<Rightarrow> int list" where
  "archive_ids_named name c = map ar_id (filter (\<lambda>a. ar_name a = name) (archives c))"

text \<open>
  Modelled from the spec: \<open>drop_archive(name)\<close>, which is not part of the sources at
  hand, cascades to the connections, backups and tablespaces.
\<close>

definition drop_archive_rows :: "string \<Rightarrow> BackupCatalog \<Rightarrow> BackupCatalog" where
  "drop_archive_rows name c =
     (let ids = archive_ids_named name c;
          gone = map bb_id (filter (\<lambda>b. bb_archive_id b \<in> set ids) (backups c))
      in c\<lparr> archives := filter (\<lambda>a. ar_name a \<noteq> name) (archives c),
            connections := filter (\<lambda>k. con_archive_id k \<notin> set ids) (connections c),
            backups := filter (\<lambda>b. bb_archive_id b \<notin> set ids) (backups c),
            tablespaces := filter (\<lambda>t. backup_id t \<notin> set gone) (tablespaces c) \<rparr>)"

definition dropArchive :: "string \<Rightarrow> unit exec" where
  "dropArchive name = mutate (DropArchive name) (drop_archive_rows name)"

definition lookup_profile :: "string \<Rightarrow> BackupCatalog \<Rightarrow> BackupProfileDescr" where
  "lookup_profile name c =
     (case find (\<lambda>p. prof_name p = name) (profiles c) of
        None \<Rightarrow> new_BackupProfileDescr
      | Some p \<Rightarrow> p)"

definition getBackupProfile :: "string \<Rightarrow> BackupProfileDescr exec" where
  "getBackupProfile name = query (GetBackupProfile name) (lookup_profile name)"

definition getBackupProfiles :: "BackupProfileDescr list exec" where
  "getBackupProfiles = query GetBackupProfiles profiles"

text \<open>
  Modelled from the spec: \<open>getCatalogConnection(archive_id)\<close>, which is not part of
  the sources at hand, returns the connections of an archive, ordered by type.
\<close>

definition connections_of :: "int \<Rightarrow> BackupCatalog \<Rightarrow> ConnectionDescr list" where
  "connections_of aid c =
     sort_key con_type (filter (\<lambda>k. con_archive_id k = aid) (connections c))"

definition getCatalogConnections :: "int \<Rightarrow> ConnectionDescr list exec" where
  "getCatalogConnections aid = query (GetCatalogConnections aid) (connections_of aid)"

definition drop_connection_rows :: "string \<Rightarrow> string \<Rightarrow> BackupCatalog \<Rightarrow> BackupCatalog" where
  "drop_connection_rows name t c =
     c\<lparr> connections :=
          filter (\<lambda>k. \<not> (con_archive_id k \<in> set (archive_ids_named name c) \<and> con_type k = t))
                 (connections c) \<rparr>"

definition dropCatalogConnection :: "string \<Rightarrow> string \<Rightarrow> unit exec" where
  "dropCatalogConnection name t =
     mutate (DropCatalogConnection name t) (drop_connection_rows name t)"

text \<open>
  Modelled from the spec: the surrogate keys that the store assigns, one more
  than the largest key in use.
\<close>

definition next_id :: "int list \<Rightarrow> int" where
  "next_id ids = fold max ids 0 + 1"

text \<open>
  Modelled from the spec: \<open>create_archive(descr)\<close>, which is not part of the sources
  at hand, inserts the row and assigns \<open>id\<close> in the descriptor (create-archive
  relies on it: "createArchive() should have set the archive id in the catalog
  descriptor").
\<close>

definition createArchive :: "CatalogDescr \<Rightarrow> CatalogDescr exec" where
  "createArchive d =
     invoke (CreateArchive (archive_name d))
       (\<lambda>s. let aid = next_id (map ar_id (archives (store s)));
                 row = \<lparr> ar_id = aid, ar_name = archive_name d,
                         ar_directory = directory d, ar_compression = compression d \<rparr>
             in (Inr (setArchiveId aid d),
                 s\<lparr> store := (store s)\<lparr> archives := archives (store s) @ [row] \<rparr> \<rparr>))"

text \<open>
  Modelled from the spec: \<open>update_archive_attributes(descr, attrs)\<close>, which is not
  part of the sources at hand, updates only the columns in \<open>attrs\<close>.
\<close>

definition update_archive_row :: "CatalogDescr \<Rightarrow> int list \<Rightarrow> archive_row \<Rightarrow> archive_row" where
  "update_archive_row d attrs a =
     (if ar_id a = descr_id d
      then a\<lparr> ar_name := (if SQL_ARCHIVE_NAME_ATTNO \<in> set attrs
                            then archive_name d else ar_name a),
              ar_directory := (if SQL_ARCHIVE_DIRECTORY_ATTNO \<in> set attrs
                                 then directory d else ar_directory a),
              ar_compression := (if SQL_ARCHIVE_COMPRESSION_ATTNO \<in> set attrs
                                   then compression d else ar_compression a) \<rparr>
      else a)"

definition updateArchiveAttributes :: "CatalogDescr \<Rightarrow> int list \<Rightarrow> unit exec" where
  "updateArchiveAttributes d attrs =
     mutate (UpdateArchiveAttributes (descr_id d) attrs)
       (\<lambda>c. c\<lparr> archives := map (update_archive_row d attrs) (archives c) \<rparr>)"

text \<open>
  Modelled from the spec: \<open>getArchiveList\<close>, which is not part of the sources at
  hand. The archive list carries, for each archive, the fields of its
  \<open>basebackup\<close> connection (list-archive in detail mode prints them). The filtered
  list keeps the rows that agree with the descriptor on the columns in \<open>attrs\<close>.
\<close>

definition listed_archive :: "BackupCatalog \<Rightarrow> archive_row \<Rightarrow> CatalogDescr" where
  "listed_archive c a =
     (case find (same_key (ar_id a) CONNECTION_TYPE_BASEBACKUP) (connections c) of
        None \<Rightarrow> descr_of_row a
      | Some k \<Rightarrow> (descr_of_row a)\<lparr> coninfo := k \<rparr>)"

definition archive_matches :: "CatalogDescr \<Rightarrow> int list \<Rightarrow> archive_row \<Rightarrow> bool" where
  "archive_matches d attrs a \<longleftrightarrow>
     (SQL_ARCHIVE_ID_ATTNO \<in> set attrs \<longrightarrow> ar_id a = descr_id d) \<and>
     (SQL_ARCHIVE_NAME_ATTNO \<in> set attrs \<longrightarrow> ar_name a = archive_name d) \<and>
     (SQL_ARCHIVE_DIRECTORY_ATTNO \<in> set attrs \<longrightarrow> ar_directory a = directory d) \<and>
     (SQL_ARCHIVE_COMPRESSION_ATTNO \<in> set attrs \<longrightarrow> ar_compression a = compression d)"

definition getArchiveList :: "CatalogDescr list exec" where
  "getArchiveList = query GetArchiveList (\<lambda>c. map (listed_archive c) (archives c))"

definition getArchiveListFiltered :: "CatalogDescr \<Rightarrow> int list \<Rightarrow> CatalogDescr list exec" where
  "getArchiveListFiltered d attrs =
     query (GetArchiveListFiltered attrs)
       (\<lambda>c. map (listed_archive c) (filter (archive_matches d attrs) (archives c)))"

text \<open>
  Modelled from the spec: \<open>stat_catalog(archive_name)\<close> yields formatted aggregate
  statistics; the class \<open>StatCatalog\<close> is only declared. The statistics are kept as
  the name of the archive they are about.
\<close>

definition statCatalog :: "string \<Rightarrow> string exec" where
  "statCatalog name = query (StatCatalog name) (\<lambda>c. name)"

text \<open>
  Modelled from the spec: \<open>create_backup_profile(descr)\<close> and
  \<open>drop_backup_profile(name)\<close>, which are not part of the sources at hand. The
  insert is a partial insert of the columns in the descriptor's affected-attribute
  set; the other columns keep their defaults.
\<close>

definition put_prof_attr :: "BackupProfileDescr \<Rightarrow> bck_prof_attno \<Rightarrow> BackupProfileDescr \<Rightarrow> BackupProfileDescr" where
  "put_prof_attr d a row =
     (case a of
        SQL_BCK_PROF_NAME_ATTNO \<Rightarrow> row\<lparr> prof_name := prof_name d \<rparr>
      | SQL_BCK_PROF_COMPRESS_TYPE_ATTNO \<Rightarrow> row\<lparr> compress_type := compress_type d \<rparr>
      | SQL_BCK_PROF_MAX_RATE_ATTNO \<Rightarrow> row\<lparr> max_rate := max_rate d \<rparr>
      | SQL_BCK_PROF_LABEL_ATTNO \<Rightarrow> row\<lparr> prof_label := prof_label d \<rparr>
      | SQL_BCK_PROF_FAST_CHKPT_ATTNO \<Rightarrow> row\<lparr> fast_checkpoint := fast_checkpoint d \<rparr>
      | SQL_BCK_PROF_INCL_WAL_ATTNO \<Rightarrow> row\<lparr> include_wal := include_wal d \<rparr>
      | SQL_BCK_PROF_WAIT_FOR_WAL_ATTNO \<Rightarrow> row\<lparr> wait_for_wal := wait_for_wal d \<rparr>)"

definition profile_row :: "BackupProfileDescr \<Rightarrow> int \<Rightarrow> BackupProfileDescr" where
  "profile_row d pid =
     (fold (put_prof_attr d) (prof_affectedAttributes d) new_BackupProfileDescr)
       \<lparr> profile_id := pid \<rparr>"

definition createBackupProfile :: "BackupProfileDescr \<Rightarrow> unit exec" where
  "createBackupProfile d =
     mutate (CreateBackupProfile d)
       (\<lambda>c. c\<lparr> profiles := profiles c
                   @ [profile_row d (next_id (map profile_id (profiles c)))] \<rparr>)"

definition dropBackupProfile :: "string \<Rightarrow> unit exec" where
  "dropBackupProfile name =
     mutate (DropBackupProfile name)
       (\<lambda>c. c\<lparr> profiles := filter (\<lambda>p. prof_name p \<noteq> name) (profiles c) \<rparr>)"

text \<open>
  Modelled from the spec: the base-backup life cycle, whose operations are not
  part of the sources at hand. The descriptor is the object the stream handle owns
  (\<open>bbp->getBaseBackupDescr()\<close>): \<open>register_basebackup(archive_id, descr)\<close> assigns
  its \<open>id\<close> and the status \<open>in progress\<close> and inserts it; \<open>abort_basebackup(descr)\<close>
  sets the status of its row to \<open>aborted\<close>; \<open>finalize_basebackup(descr)\<close> sets it to
  \<open>ready\<close> and records \<open>stopped\<close> and \<open>xlogposend\<close>.
\<close>

definition registerBasebackup :: "int \<Rightarrow> unit exec" where
  "registerBasebackup aid =
     invoke (RegisterBasebackup aid)
       (\<lambda>s. let d = (bbp_descr s)
                   \<lparr> bb_id := next_id (map bb_id (backups (store s))),
                     status := BASEBACKUP_STATUS_IN_PROGRESS,
                     started := clock s \<rparr>
             in (Inr (), s\<lparr> bbp_descr := d,
                            store := (store s)\<lparr> backups := backups (store s) @ [d] \<rparr> \<rparr>))"

definition set_status :: "int \<Rightarrow> (BaseBackupDescr \<Rightarrow> BaseBackupDescr) \<Rightarrow> BackupCatalog \<Rightarrow> BackupCatalog" where
  "set_status bid f c =
     c\<lparr> backups := map (\<lambda>b. if bb_id b = bid then f b else b) (backups c) \<rparr>"

definition abortBasebackup :: "unit exec" where
  "abortBasebackup =
     (\<lambda>s. mutate (AbortBasebackup (bb_id (bbp_descr s)))
             (set_status (bb_id (bbp_descr s))
                (\<lambda>b. b\<lparr> status := BASEBACKUP_STATUS_ABORTED \<rparr>)) s)"

definition finalizeBasebackup :: "unit exec" where
  "finalizeBasebackup =
     (\<lambda>s. mutate (FinalizeBasebackup (bb_id (bbp_descr s)))
             (set_status (bb_id (bbp_descr s))
                (\<lambda>b. b\<lparr> status := BASEBACKUP_STATUS_READY, stopped := clock s,
                         xlogposend := xlogposend (bbp_descr s) \<rparr>)) s)"

definition no_backup_id :: failure where
  "no_backup_id = Failure CCatalogIssue ''tablespace without backup id''"

text \<open>
  Modelled from the spec: \<open>register_tablespace_for_backup(descr)\<close>, which is not
  part of the sources at hand, requires \<open>backup_id \<ge> 0\<close>.
\<close>

definition registerTablespaceForBackup :: "BackupTablespaceDescr \<Rightarrow> unit exec" where
  "registerTablespaceForBackup t =
     invoke (RegisterTablespaceForBackup (backup_id t) (spcoid t))
       (\<lambda>s. if backup_id t < 0 then (Inl no_backup_id, s)
             else (Inr (), s\<lparr> store := (store s)
                     \<lparr> tablespaces := tablespaces (store s) @ [t] \<rparr> \<rparr>))"

section \<open>Output formatting\<close>

text \<open>
  \<open>boost::format("%-Ns\t%-Ms") % a % b\<close>: both arguments left-justified in their
  field widths, a tabulator between them. A \<open>bool\<close> streams as \<open>1\<close> or \<open>0\<close>, an
  unsigned integer in decimal. \<open>CPGBackupCtlBase::makeHeader\<close> and \<open>makeLine\<close> are
  only declared: what they print is kept as the items \<open>Header\<close>, \<open>MakeLine\<close> and
  \<open>Rule\<close> with their arguments.
\<close>

definition ljust :: "nat \<Rightarrow> string \<Rightarrow> string" where
  "ljust n s = s @ replicate (n - length s) CHR '' ''"

definition fmt2 :: "nat \<Rightarrow> nat \<Rightarrow> string \<Rightarrow> string \<Rightarrow> string" where
  "fmt2 w1 w2 a b = ljust w1 a @ [CHR 0x09] @ ljust w2 b"

function show_nat :: "nat \<Rightarrow> string" where
  "show_nat n =
     (if n < 10 then [''0123456789'' ! n]
      else show_nat (n div 10) @ [''0123456789'' ! (n mod 10)])"
  by pat_completeness auto
termination
  by (relation "measure (\<lambda>n. n)") auto

definition show_int :: "int \<Rightarrow> string" where
  "show_int i = (if i < 0 then CHR ''-'' # show_nat (nat (- i)) else show_nat (nat i))"

definition show_bool :: "bool \<Rightarrow> string" where
  "show_bool b = (if b then ''1'' else ''0'')"

section \<open>The envelope shared by the commands\<close>

definition gets :: "(world \<Rightarrow> 'a) \<Rightarrow> 'a exec" where
  "gets f = (\<lambda>s. (Inr (f s), s))"

definition modify :: "(world \<Rightarrow> world) \<Rightarrow> unit exec" where
  "modify f = (\<lambda>s. (Inr (), f s))"

fun say_all :: "out_item list \<Rightarrow> unit exec" where
  "say_all [] = ret ()"
| "say_all (x # xs) = thn (say x) (say_all xs)"

text \<open>\<open>if (this->catalog == nullptr) throw CArchiveIssue(msg);\<close>\<close>

definition no_catalog :: "string \<Rightarrow> 'a exec" where
  "no_catalog msg = throw_new (Failure CArchiveIssue msg)"

text \<open>\<open>if (!this->catalog->available()) this->catalog->open_rw();\<close>\<close>

definition ensure_open :: "unit exec" where
  "ensure_open = (\<lambda>s. if \<not> available s then open_rw s else ret () s)"

text \<open>The handler \<open>{ this->catalog->rollbackTransaction(); throw e; }\<close>.\<close>

definition rollback_and_rethrow :: "failure \<Rightarrow> 'a exec" where
  "rollback_and_rethrow e = thn rollbackTransaction (rethrow (Domain (sliced e)))"

section \<open>list-backup-profile\<close>

text \<open>The switch over \<open>profile->compress_type\<close> (part_000, lines 911-924).\<close>

definition compression_line :: "BackupProfileCompressType \<Rightarrow> string" where
  "compression_line t =
     (case t of
        BACKUP_COMPRESS_TYPE_NONE \<Rightarrow> fmt2 25 30 ''COMPRESSION'' ''NONE''
      | BACKUP_COMPRESS_TYPE_GZIP \<Rightarrow> fmt2 25 30 ''COMPRESSION'' ''GZIP''
      | BACKUP_COMPRESS_TYPE_ZSTD \<Rightarrow> fmt2 25 30 ''COMPRESSION'' ''ZSTD''
      | _ \<Rightarrow> fmt2 25 30 ''COMPRESSION'' ''UNKNOWN or N/A'')"

text \<open>The "Profile max rate" statement (part_000, lines 926-931).\<close>

definition max_rate_line :: "BackupProfileDescr \<Rightarrow> string" where
  "max_rate_line profile =
     (if max_rate profile > 0
      then fmt2 25 30 ''MAX RATE'' ''NOT RATED''
      else fmt2 25 30 ''MAX RATE(kbps)'' (show_nat (unat (max_rate profile))))"

definition profile_detail_lines :: "BackupProfileDescr \<Rightarrow> out_item list" where
  "profile_detail_lines profile =
     [ Header (''Details for backup profile '' @ prof_name profile)
              (fmt2 25 40 ''Property'' ''Setting'') 80,
       Line (fmt2 25 30 ''NAME'' (prof_name profile)),
       Line (compression_line (compress_type profile)),
       Line (max_rate_line profile),
       Line (fmt2 25 30 ''LABEL'' (prof_label profile)),
       Line (fmt2 25 30 ''FAST CHECKPOINT'' (show_bool (fast_checkpoint profile))),
       Line (fmt2 25 30 ''WAL INCLUDED'' (show_bool (include_wal profile))),
       Line (fmt2 25 30 ''WAIT FOR WAL'' (show_bool (wait_for_wal profile))) ]"

definition ListBackupProfile_execute :: "CatalogDescr \<Rightarrow> bool \<Rightarrow> unit exec" where
  "ListBackupProfile_execute this extended =
     (if \<not> has_catalog this
      then no_catalog ''could not execute archive command: no catalog''
      else
        thn ensure_open
          (try_catch_exception
             (thn startTransaction
               (thn
                 (if tag this = LIST_BACKUP_PROFILE then
                    bnd getBackupProfiles (\<lambda>profileList.
                      thn (say (Header ''List of backup profiles''
                                  (fmt2 25 15 ''Name'' ''Backup Label'') 80))
                          (say_all (map (\<lambda>descr. Line (fmt2 25 15 (prof_name descr)
                                                        (prof_label descr)))
                                        profileList)))
                  else if tag this = LIST_BACKUP_PROFILE_DETAIL then
                    bnd (getBackupProfile (prof_name (backup_profile this))) (\<lambda>profile.
                      say_all (profile_detail_lines profile))
                  else ret ())
                 commitTransaction))
             (thn rollbackTransaction (rethrow StdException))))"

section \<open>drop-archive\<close>

definition DropArchive_execute :: "CatalogDescr \<Rightarrow> bool \<Rightarrow> unit exec" where
  "DropArchive_execute this existsOk =
     (if \<not> has_catalog this
      then no_catalog ''could not execute archive command: no catalog''
      else
        thn ensure_open
          (thn startTransaction
            (try_catch
               (bnd (existsByName (archive_name this)) (\<lambda>temp_descr.
                  thn
                    (if descr_id temp_descr \<ge> 0 then dropArchive (archive_name this)
                     else if \<not> existsOk then
                       throw_new (Failure CArchiveIssue
                         (''specified archive name \"'' @ archive_name this
                            @ ''\" does not exists''))
                     else ret ())
                    (thn (dropArchive (archive_name this)) commitTransaction)))
               rollback_and_rethrow)))"

section \<open>drop-connection, list-connection, create-connection\<close>

definition DropConnection_execute :: "CatalogDescr \<Rightarrow> bool \<Rightarrow> unit exec" where
  "DropConnection_execute this flag =
     (if \<not> has_catalog this
      then no_catalog ''could not execute drop command: no catalog''
      else
        thn ensure_open
          (thn startTransaction
            (thn
              (try_catch
                 (bnd (existsByName (archive_name this)) (\<lambda>tempDescr.
                    if descr_id tempDescr \<ge> 0 then
                      (let this1 = setArchiveId (descr_id tempDescr) this;
                           this2 = this1\<lparr> coninfo :=
                                     pushAffectedAttribute SQL_CON_ARCHIVE_ID_ATTNO (coninfo this1) \<rparr>;
                           contype = con_type (coninfo this2)
                       in bnd (getCatalogConnection (coninfo this2) (descr_id this2)
                                 (con_type (coninfo this2))) (\<lambda>con.
                            if con_archive_id con < 0 then
                              throw_new (Failure CCatalogIssue
                                (''archive \"'' @ archive_name this
                                   @ ''\" does not have a connection of type \"''
                                   @ contype @ ''\"''))
                            else dropCatalogConnection (archive_name this) (con_type con)))
                    else
                      throw_new (Failure CCatalogIssue
                        (''archive \"'' @ archive_name this @ ''\" does not exist''))))
                 rollback_and_rethrow)
              commitTransaction)))"

definition connection_lines :: "ConnectionDescr \<Rightarrow> out_item list" where
  "connection_lines con =
     [ Header (''connection type '' @ con_type con) (fmt2 15 60 ''Attribute'' ''Setting'') 80,
       Line (fmt2 15 60 ''DSN'' (dsn con)),
       Line (fmt2 15 60 ''PGHOST'' (pghost con)),
       Line (fmt2 15 60 ''PGDATABASE'' (pgdatabase con)),
       Line (fmt2 15 60 ''PGUSER'' (pguser con)),
       Line (fmt2 15 60 ''PGPORT'' (show_int (pgport con))) ]"

definition ListConnection_execute :: "CatalogDescr \<Rightarrow> bool \<Rightarrow> unit exec" where
  "ListConnection_execute this flag =
     (if \<not> has_catalog this
      then no_catalog ''could not execute list command: no catalog''
      else
        thn ensure_open
          (thn startTransaction
            (thn
              (try_catch
                 (bnd (existsByName (archive_name this)) (\<lambda>tempDescr.
                    if descr_id tempDescr \<ge> 0 then
                      bnd (getCatalogConnections (descr_id tempDescr)) (\<lambda>connections.
                        thn (say (Line (''List of connections for archive \"''
                                          @ archive_name this @ ''\"'')))
                            (say_all (concat (map connection_lines connections))))
                    else
                      throw_new (Failure CCatalogIssue
                        (''archive \"'' @ archive_name this @ ''\" does not exist''))))
                 rollback_and_rethrow)
              commitTransaction)))"

definition CreateConnection_execute :: "CatalogDescr \<Rightarrow> bool \<Rightarrow> unit exec" where
  "CreateConnection_execute this flag =
     (if \<not> has_catalog this
      then no_catalog ''could not execute create connection command: no catalog''
      else
        thn ensure_open
          (thn startTransaction
            (try_catch
               (bnd (existsByName (archive_name this)) (\<lambda>tempArchiveDescr.
                  if descr_id tempArchiveDescr < 0 then
                    throw_new (Failure CCatalogIssue
                      (''archive \"'' @ archive_name this @ ''\" does not exist''))
                  else
                    (let this1 = setArchiveId (descr_id tempArchiveDescr) this;
                         tempConDescr =
                           pushAffectedAttribute SQL_CON_TYPE_ATTNO
                             (pushAffectedAttribute SQL_CON_ARCHIVE_ID_ATTNO new_ConnectionDescr)
                     in bnd (getCatalogConnection tempConDescr (descr_id tempArchiveDescr)
                               (con_type (coninfo this1))) (\<lambda>tempConDescr.
                          if con_archive_id tempConDescr \<ge> 0
                             \<and> con_type tempConDescr \<noteq> CONNECTION_TYPE_UNKNOWN
                          then
                            throw_new (Failure CCatalogIssue
                              (''archive \"'' @ archive_name this
                                 @ ''\" already has a connection of this type configured''
                                 @ [CHR 0x0A]))
                          else
                            thn (createCatalogConnection (coninfo this1))
                                commitTransaction))))
               rollback_and_rethrow)))"

section \<open>list-backup-catalog\<close>

definition ListBackupCatalog_execute :: "CatalogDescr \<Rightarrow> bool \<Rightarrow> unit exec" where
  "ListBackupCatalog_execute this flag =
     (if \<not> has_catalog this
      then no_catalog ''could not execute catalog command: no catalog''
      else
        thn ensure_open
          (try_catch
             (thn startTransaction
               (bnd (existsByName (archive_name this)) (\<lambda>temp_descr.
                  if descr_id temp_descr < 0 then
                    throw_new (Failure CCatalogIssue
                      (''cannot stat catalog: archive\"'' @ archive_name this
                         @ ''\" does not exist''))
                  else
                    bnd (statCatalog (archive_name this)) (\<lambda>stat.
                      thn (say (StatString stat)) commitTransaction))))
             rollback_and_rethrow))"

section \<open>drop-backup-profile, create-backup-profile\<close>

definition DropBackupProfile_execute :: "CatalogDescr \<Rightarrow> bool \<Rightarrow> unit exec" where
  "DropBackupProfile_execute this extended =
     (if \<not> has_catalog this
      then no_catalog ''could not execute archive command: no catalog''
      else
        thn ensure_open
          (try_catch_exception
             (thn startTransaction
               (bnd (getBackupProfile (prof_name (backup_profile this))) (\<lambda>temp_descr.
                  if profile_id temp_descr < 0 then
                    throw_new (Failure CCatalogIssue
                      (''backup profile \"'' @ prof_name (backup_profile this)
                         @ ''\"'' @ [CHR 0x0A]))
                  else
                    thn (dropBackupProfile (prof_name (backup_profile this)))
                        commitTransaction)))
             (thn rollbackTransaction (rethrow StdException))))"

text \<open>The attributes pushed to \<open>attr\<close> (part_000, lines 1025-1032).\<close>

definition create_profile_attr :: "bck_prof_attno list" where
  "create_profile_attr =
     [ SQL_BCK_PROF_NAME_ATTNO, SQL_BCK_PROF_COMPRESS_TYPE_ATTNO,
       SQL_BCK_PROF_MAX_RATE_ATTNO, SQL_BCK_PROF_LABEL_ATTNO,
       SQL_BCK_PROF_FAST_CHKPT_ATTNO, SQL_BCK_PROF_INCL_WAL_ATTNO,
       SQL_BCK_PROF_WAIT_FOR_WAL_ATTNO ]"

definition CreateBackupProfile_execute :: "CatalogDescr \<Rightarrow> bool \<Rightarrow> unit exec" where
  "CreateBackupProfile_execute this existsOk =
     (if \<not> has_catalog this
      then no_catalog ''could not execute archive command: no catalog''
      else
        thn ensure_open
          (try_catch
             (thn startTransaction
               (bnd (getBackupProfile (prof_name (profileDescr this))) (\<lambda>temp_descr.
                  thn
                    (if profile_id temp_descr < 0 then
                       createBackupProfile
                         ((profileDescr this)\<lparr> prof_affectedAttributes := create_profile_attr \<rparr>)
                     else if \<not> existsOk then
                       throw_new (Failure CCatalogIssue
                         (''backup profile '' @ prof_name (profileDescr this)
                            @ '' already exists''))
                     else ret ())
                    commitTransaction)))
             rollback_and_rethrow))"

section \<open>verify-archive, list-archive, alter-archive, create-archive\<close>

definition VerifyArchive_execute :: "CatalogDescr \<Rightarrow> bool \<Rightarrow> unit exec" where
  "VerifyArchive_execute this missingOK =
     (if \<not> has_catalog this
      then no_catalog ''could not execute archive command: no catalog''
      else
        thn ensure_open
          (try_catch
             (thn startTransaction
               (bnd (existsByName (archive_name this)) (\<lambda>temp_descr.
                  if descr_id temp_descr < 0 then
                    throw_new (Failure CCatalogIssue
                      (''archive '' @ archive_name this @ '' does not exist''))
                  else
                    thn (external (VerifyArchiveDirectory (directory temp_descr)))
                        commitTransaction)))
             rollback_and_rethrow))"

definition archive_list_line :: "CatalogDescr \<Rightarrow> out_item" where
  "archive_list_line descr = MakeLine (fmt2 15 30 (archive_name descr) (directory descr))"

definition archive_detail_lines :: "CatalogDescr \<Rightarrow> out_item list" where
  "archive_detail_lines descr =
     [ Line (fmt2 20 30 ''NAME'' (archive_name descr)),
       Line (fmt2 20 30 ''DIRECTORY'' (directory descr)),
       Line (fmt2 20 30 ''PGHOST'' (pghost (coninfo descr))),
       Line (fmt2 20 30 ''PGPORT'' (show_int (pgport (coninfo descr)))),
       Line (fmt2 20 30 ''PGDATABASE'' (pgdatabase (coninfo descr))),
       Line (fmt2 20 30 ''PGUSER'' (pguser (coninfo descr))),
       Line (fmt2 20 30 ''DSN'' (dsn (coninfo descr))),
       Line (fmt2 20 30 ''COMPRESSION'' (show_bool (compression descr))),
       Rule 80 ]"

definition ListArchive_execute :: "CatalogDescr \<Rightarrow> bool \<Rightarrow> unit exec" where
  "ListArchive_execute this extendedOutput =
     (if \<not> has_catalog this
      then no_catalog ''could not execute archive command: no catalog''
      else
        thn ensure_open
          (thn
            (try_catch
               (thn startTransaction
                 (case mode this of
                    ARCHIVE_LIST \<Rightarrow>
                      bnd getArchiveList (\<lambda>archiveList.
                        thn (say (Header ''List of archives''
                                    (fmt2 15 30 ''Name'' ''Directory'') 80))
                            (say_all (map archive_list_line archiveList)))
                  | ARCHIVE_FILTERED_LIST \<Rightarrow>
                      bnd (getArchiveListFiltered this (affectedAttributes this))
                        (\<lambda>archiveList.
                        thn (say (Header ''Filtered archive list''
                                    (fmt2 15 30 ''Name'' ''Directory'') 80))
                            (say_all (map archive_list_line archiveList)))
                  | ARCHIVE_DETAIL_LIST \<Rightarrow>
                      bnd (getArchiveListFiltered this (affectedAttributes this))
                        (\<lambda>archiveList.
                        thn (say (Header ''Detail view for archive''
                                    (fmt2 20 30 ''Property'' ''Setting'') 80))
                            (say_all (concat (map archive_detail_lines archiveList))))))
               rollback_and_rethrow)
            close_catalog))"

definition AlterArchive_execute :: "CatalogDescr \<Rightarrow> bool \<Rightarrow> unit exec" where
  "AlterArchive_execute this ignoreMissing =
     (if \<not> has_catalog this
      then no_catalog ''could not execute archive command: no catalog''
      else
        thn ensure_open
          (thn startTransaction
            (try_catch
               (bnd (existsByName (archive_name this)) (\<lambda>temp_descr.
                  thn
                    (if descr_id temp_descr \<ge> 0 then
                       (let this1 = this\<lparr> descr_id := descr_id temp_descr \<rparr>
                        in updateArchiveAttributes this1 (affectedAttributes this1))
                     else if \<not> ignoreMissing then
                       throw_new (Failure CArchiveIssue
                         (''could not alter archive: archive name \"''
                            @ archive_name this @ ''\" does not exists''))
                     else ret ())
                    commitTransaction))
               rollback_and_rethrow)))"

definition CreateArchive_execute :: "CatalogDescr \<Rightarrow> bool \<Rightarrow> unit exec" where
  "CreateArchive_execute this existsOk =
     (if \<not> has_catalog this
      then no_catalog ''could not execute archive command: no catalog''
      else
        thn ensure_open
          (thn startTransaction
            (bnd (exists_dir (directory this)) (\<lambda>temp_descr.
               try_catch
                 (if descr_id temp_descr < 0 then
                    bnd (createArchive this) (\<lambda>temp_descr.
                      (let temp_descr1 = setConnectionType CONNECTION_TYPE_BASEBACKUP temp_descr
                       in thn (createCatalogConnection (coninfo temp_descr1))
                              commitTransaction))
                  else if \<not> existsOk then
                    throw_new (Failure CArchiveIssue
                      (''archive already exists: \"'' @ directory this @ ''\"''))
                  else
                    (let this1 = this\<lparr> descr_id := descr_id temp_descr \<rparr>
                     in thn startTransaction
                          (thn (updateArchiveAttributes this1 (affectedAttributes this1))
                               commitTransaction)))
                 rollback_and_rethrow))))"

section \<open>start-basebackup\<close>

text \<open>Resolve the archive and its \<open>basebackup\<close> connection (part_000, lines 481-524).\<close>

definition sb_coninfo_attrs :: "ConnectionDescr \<Rightarrow> ConnectionDescr" where
  "sb_coninfo_attrs c =
     pushAffectedAttribute SQL_CON_PGDATABASE_ATTNO
      (pushAffectedAttribute SQL_CON_PGUSER_ATTNO
       (pushAffectedAttribute SQL_CON_PGPORT_ATTNO
        (pushAffectedAttribute SQL_CON_PGHOST_ATTNO
         (pushAffectedAttribute SQL_CON_DSN_ATTNO
          (pushAffectedAttribute SQL_CON_TYPE_ATTNO
           (pushAffectedAttribute SQL_CON_ARCHIVE_ID_ATTNO c))))))"

definition archive_missing :: "string \<Rightarrow> failure" where
  "archive_missing name =
     Failure CArchiveIssue (''archive '' @ name @ '' doesn'' @ [CHR 0x27] @ ''t exist'')"

definition sb_resolve_archive :: "CatalogDescr \<Rightarrow> CatalogDescr exec" where
  "sb_resolve_archive this =
     thn startTransaction
       (bnd
         (try_catch
            (bnd (existsByName (archive_name this)) (\<lambda>temp_descr.
               bnd
                 (if descr_id temp_descr \<ge> 0 then
                    bnd (getCatalogConnection (sb_coninfo_attrs (coninfo temp_descr))
                           (descr_id temp_descr) CONNECTION_TYPE_BASEBACKUP)
                      (\<lambda>con. ret (temp_descr\<lparr> coninfo := con \<rparr>))
                  else ret temp_descr)
                 (\<lambda>temp_descr. thn commitTransaction (ret temp_descr))))
            rollback_and_rethrow)
         (\<lambda>temp_descr.
            if descr_id temp_descr < 0 then
              thn rollbackTransaction (throw_new (archive_missing (archive_name this)))
            else ret temp_descr))"

text \<open>Resolve the backup profile (part_000, lines 526-592).\<close>

definition profile_missing :: "string \<Rightarrow> failure" where
  "profile_missing name =
     Failure CArchiveIssue (''backup profile \"'' @ name @ ''\" does not exist'')"

definition default_profile_missing :: failure where
  "default_profile_missing =
     Failure CArchiveIssue
       ''\"default\" profile not found: please check your backup catalog or create a new one''"

definition sb_resolve_profile :: "CatalogDescr \<Rightarrow> BackupProfileDescr exec" where
  "sb_resolve_profile this =
     (if prof_name (backup_profile this) \<noteq> '''' then
        thn startTransaction
          (bnd
            (try_catch
               (bnd (getBackupProfile (prof_name (backup_profile this))) (\<lambda>backupProfile.
                  thn commitTransaction (ret backupProfile)))
               rollback_and_rethrow)
            (\<lambda>backupProfile.
               if profile_id backupProfile < 0 then
                 throw_new (profile_missing (prof_name (backup_profile this)))
               else ret backupProfile))
      else
        thn startTransaction
          (bnd
            (try_catch
               (bnd (getBackupProfile ''default'') (\<lambda>backupProfile.
                  thn commitTransaction (ret backupProfile)))
               rollback_and_rethrow)
            (\<lambda>backupProfile.
               if profile_id backupProfile < 0 then
                 throw_new default_profile_missing
               else ret backupProfile)))"

text \<open>
  The loop \<open>while (bbp->stepTablespace(backupHandle, tablespaceDescr))\<close> over the
  tablespaces the server sends: the last call of \<open>stepTablespace\<close> returns false.
\<close>

fun sb_tablespaces :: "BackupTablespaceDescr list \<Rightarrow> unit exec" where
  "sb_tablespaces [] = external StepTablespace"
| "sb_tablespaces (t # ts) =
     thn (external StepTablespace)
       (bnd (gets (\<lambda>s. t\<lparr> backup_id := bb_id (bbp_descr s) \<rparr>)) (\<lambda>tablespaceDescr.
          thn (registerTablespaceForBackup tablespaceDescr)
            (thn (external (BackupTablespace (spcoid tablespaceDescr)))
               (sb_tablespaces ts))))"

text \<open>
  Modelled from the spec: \<open>bbp->end()\<close>, which is not part of the sources at hand,
  captures the end position in the descriptor.
\<close>

definition stream_end :: "unit exec" where
  "stream_end =
     invoke StreamEnd
       (\<lambda>s. (Inr (), s\<lparr> bbp_descr := (bbp_descr s)\<lparr> xlogposend := bbp_xlogposend s \<rparr> \<rparr>))"

text \<open>
  The body of the streaming \<open>try\<close> block (part_000, lines 594-735), in three
  parts: the stream is opened, the base backup is registered in a transaction of
  its own (lines 660-683), and, once \<open>basebackup_registered\<close> is set, the
  tablespaces are streamed and the stream is closed (lines 688-735).
\<close>

definition sb_register :: "CatalogDescr \<Rightarrow> unit exec" where
  "sb_register temp_descr =
     thn startTransaction
       (try_catch
          (thn (external DirectoryInitialize)
           (thn (external DirectoryCreate)
            (thn (modify (\<lambda>s. s\<lparr> bbp_descr := (bbp_descr s)
                          \<lparr> bb_archive_id := descr_id temp_descr,
                            fsentry := backup_directory s \<rparr> \<rparr>))
             (thn (bnd (gets (\<lambda>s. fsentry (bbp_descr s))) (\<lambda>path.
                     say (ErrLine (''directory handle path '' @ path))))
              (thn (registerBasebackup (descr_id temp_descr))
                   commitTransaction)))))
          rollback_and_rethrow)"

definition sb_stream_tail :: "unit exec" where
  "sb_stream_tail =
     thn (modify (\<lambda>s. s\<lparr> basebackup_registered := True \<rparr>))
      (thn (external ReadTablespaceInfo)
       (thn (bnd (gets bbp_tablespaces) sb_tablespaces)
        (thn stream_end
             (external StreamDisconnect))))"

definition sb_stream_block :: "CatalogDescr \<Rightarrow> BackupProfileDescr \<Rightarrow> unit exec" where
  "sb_stream_block temp_descr backupProfile =
     thn (external StreamConnect)
      (thn (external StreamIdentify)
       (thn (external (StreamBasebackup (prof_name backupProfile)))
        (thn (external StreamStart)
         (thn (sb_register temp_descr)
              sb_stream_tail))))"

text \<open>The handler of the streaming \<open>try\<close> block (part_000, lines 736-768).\<close>

definition sb_abort_handler :: "failure \<Rightarrow> unit exec" where
  "sb_abort_handler e =
     thn (modify (\<lambda>s. s\<lparr> txinprogress := False \<rparr>))
      (thn
        (try_catch
           (bnd (gets basebackup_registered) (\<lambda>registered.
              if registered then
                thn startTransaction
                 (thn (modify (\<lambda>s. s\<lparr> txinprogress := True \<rparr>))
                  (thn abortBasebackup commitTransaction))
              else ret ()))
           (\<lambda>e2. bnd (gets txinprogress) (\<lambda>inprogress.
              if inprogress then rollbackTransaction else ret ())))
        (rethrow (Domain (sliced e))))"

definition sb_stream_phase :: "CatalogDescr \<Rightarrow> BackupProfileDescr \<Rightarrow> unit exec" where
  "sb_stream_phase temp_descr backupProfile =
     try_catch (sb_stream_block temp_descr backupProfile) sb_abort_handler"

text \<open>Finalize the registration (part_000, lines 770-783).\<close>

definition sb_finalize :: "unit exec" where
  "sb_finalize =
     thn startTransaction
       (try_catch (thn finalizeBasebackup commitTransaction) rollback_and_rethrow)"

text \<open>Everything before the streaming \<open>try\<close> block (part_000, lines 457-592).\<close>

definition sb_prepare :: "CatalogDescr \<Rightarrow> (CatalogDescr \<times> BackupProfileDescr) exec" where
  "sb_prepare this =
     thn (modify (\<lambda>s. s\<lparr> basebackup_registered := False \<rparr>))
       (if \<not> has_catalog this
        then no_catalog ''could not execute archive command: no catalog''
        else
          thn ensure_open
            (bnd (sb_resolve_archive this) (\<lambda>temp_descr.
               bnd (sb_resolve_profile this) (\<lambda>backupProfile.
                 ret (temp_descr, backupProfile)))))"

definition StartBasebackup_execute :: "CatalogDescr \<Rightarrow> bool \<Rightarrow> unit exec" where
  "StartBasebackup_execute this background =
     bnd (sb_prepare this) (\<lambda>(temp_descr, backupProfile).
       thn (sb_stream_phase temp_descr backupProfile) sb_finalize)"

section \<open>The command classes\<close>

datatype command =
    DropConnectionCatalogCommand | ListConnectionCatalogCommand
  | CreateConnectionCatalogCommand | ListBackupCatalogCommand
  | StartBasebackupCatalogCommand | DropBackupProfileCatalogCommand
  | ListBackupProfileCatalogCommand | CreateBackupProfileCatalogCommand
  | VerifyArchiveCatalogCommand | ListArchiveCatalogCommand
  | AlterArchiveCatalogCommand | DropArchiveCatalogCommand
  | CreateArchiveCatalogCommand

text \<open>The virtual call \<open>command->execute(flag)\<close>.\<close>

definition execute :: "command \<Rightarrow> CatalogDescr \<Rightarrow> bool \<Rightarrow> unit exec" where
  "execute c =
     (case c of
        DropConnectionCatalogCommand \<Rightarrow> DropConnection_execute
      | ListConnectionCatalogCommand \<Rightarrow> ListConnection_execute
      | CreateConnectionCatalogCommand \<Rightarrow> CreateConnection_execute
      | ListBackupCatalogCommand \<Rightarrow> ListBackupCatalog_execute
      | StartBasebackupCatalogCommand \<Rightarrow> StartBasebackup_execute
      | DropBackupProfileCatalogCommand \<Rightarrow> DropBackupProfile_execute
      | ListBackupProfileCatalogCommand \<Rightarrow> ListBackupProfile_execute
      | CreateBackupProfileCatalogCommand \<Rightarrow> CreateBackupProfile_execute
      | VerifyArchiveCatalogCommand \<Rightarrow> VerifyArchive_execute
      | ListArchiveCatalogCommand \<Rightarrow> ListArchive_execute
      | AlterArchiveCatalogCommand \<Rightarrow> AlterArchive_execute
      | DropArchiveCatalogCommand \<Rightarrow> DropArchive_execute
      | CreateArchiveCatalogCommand \<Rightarrow> CreateArchive_execute)"

section \<open>Example worlds\<close>

definition new_BaseBackupDescr :: BaseBackupDescr where
  "new_BaseBackupDescr =
     \<lparr> bb_id = -1, bb_archive_id = -1, xlogpos = '''', xlogposend = '''', timeline = 0,
       bb_label = '''', fsentry = '''', started = '''', stopped = '''', pinned = 0,
       status = BASEBACKUP_STATUS_IN_PROGRESS, systemid = '''', wal_segment_size = 0,
       used_profile = -1 \<rparr>"

text \<open>A process that has not opened its catalog yet.\<close>

definition fresh_world :: "BackupCatalog \<Rightarrow> (nat \<Rightarrow> failure option) \<Rightarrow> world" where
  "fresh_world c f =
     \<lparr> store = c, snapshot = c, tx_open = False, opened = False, faults = f,
       calls = 0, trace = [], stdout = [], bbp_descr = new_BaseBackupDescr,
       bbp_tablespaces = [], bbp_xlogposend = ''0/3000000'',
       backup_directory = ''/tmp/a/base/streambackup-1'', clock = ''2026-01-01'',
       basebackup_registered = False, txinprogress = False \<rparr>"

definition no_faults :: "nat \<Rightarrow> failure option" where
  "no_faults = (\<lambda>n. None)"

definition fail_at :: "nat \<Rightarrow> failure \<Rightarrow> nat \<Rightarrow> failure option" where
  "fail_at k e = (\<lambda>n. if n = k then Some e else None)"

text \<open>One archive \<open>a\<close> with its \<open>basebackup\<close> connection, the profiles \<open>p\<close> and \<open>default\<close>.\<close>

definition demo_catalog :: BackupCatalog where
  "demo_catalog =
     \<lparr> archives = [\<lparr> ar_id = 1, ar_name = ''a'', ar_directory = ''/tmp/a'',
                     ar_compression = False \<rparr>],
       connections = [new_ConnectionDescr\<lparr> con_archive_id := 1,
                        con_type := CONNECTION_TYPE_BASEBACKUP, pghost := ''h'' \<rparr>],
       profiles = [new_BackupProfileDescr\<lparr> profile_id := 1, prof_name := ''p'',
                     compress_type := BACKUP_COMPRESS_TYPE_GZIP, max_rate := 100 \<rparr>,
                   new_BackupProfileDescr\<lparr> profile_id := 2, prof_name := ''default'' \<rparr>],
       backups = [], tablespaces = [] \<rparr>"

definition demo_command :: CatalogDescr where
  "demo_command = new_CatalogDescr\<lparr> has_catalog := True, archive_name := ''a'' \<rparr>"

section \<open>Vocabulary of the statements\<close>

text \<open>The next \<open>n\<close> calls of a collaborator do not fail.\<close>

definition quiet_for :: "nat \<Rightarrow> world \<Rightarrow> bool" where
  "quiet_for n s \<longleftrightarrow> (\<forall>k<n. faults s (calls s + k) = None)"

text \<open>The row that a lookup of an archive by name finds.\<close>

definition archive_named :: "string \<Rightarrow> BackupCatalog \<Rightarrow> archive_row option" where
  "archive_named name c = find (\<lambda>a. ar_name a = name) (archives c)"

text \<open>The name under which start-basebackup looks its profile up.\<close>

definition resolved_profile_name :: "CatalogDescr \<Rightarrow> string" where
  "resolved_profile_name this =
     (if prof_name (backup_profile this) \<noteq> '''' then prof_name (backup_profile this)
      else ''default'')"

text \<open>Every archive has exactly one connection of type \<open>basebackup\<close>.\<close>

definition basebackup_connections :: "int \<Rightarrow> BackupCatalog \<Rightarrow> ConnectionDescr list" where
  "basebackup_connections aid c =
     filter (same_key aid CONNECTION_TYPE_BASEBACKUP) (connections c)"

definition one_basebackup_connection :: "BackupCatalog \<Rightarrow> bool" where
  "one_basebackup_connection c \<longleftrightarrow>
     (\<forall>a \<in> set (archives c). length (basebackup_connections (ar_id a) c) = 1)"

text \<open>
  The state in which the streaming \<open>try\<close> block of start-basebackup ends, for the
  archive descriptor and the profile that the preparation returned.
\<close>

definition sb_block_result :: "CatalogDescr \<Rightarrow> CatalogDescr \<Rightarrow> BackupProfileDescr \<Rightarrow> world \<Rightarrow> (raised + unit) \<times> world" where
  "sb_block_result this temp_descr backupProfile s =
     sb_stream_block temp_descr backupProfile (snd (sb_prepare this s))"

text \<open>
  The calls the handler of the streaming block makes from a state, as the
  failures of its three calls decide.
\<close>

definition compensation_trace :: "world \<Rightarrow> event list" where
  "compensation_trace s =
     (case faults s (calls s) of
        Some e2 \<Rightarrow> [Call StartTransaction, Raised e2]
      | None \<Rightarrow>
          Call StartTransaction # Call (AbortBasebackup (bb_id (bbp_descr s))) #
          (case faults s (Suc (calls s)) of
             Some e2 \<Rightarrow> [Raised e2, Call (RollbackTransaction True)]
           | None \<Rightarrow>
               Call CommitTransaction #
               (case faults s (Suc (Suc (calls s))) of
                  Some e2 \<Rightarrow> [Raised e2, Call (RollbackTransaction True)]
                | None \<Rightarrow> [])))"

text \<open>The commands whose whole work is one transaction around one \<open>try\<close> block.\<close>

definition single_transaction :: "command set" where
  "single_transaction =
     { DropConnectionCatalogCommand, ListConnectionCatalogCommand,
       CreateConnectionCatalogCommand, ListBackupCatalogCommand,
       CreateBackupProfileCatalogCommand, VerifyArchiveCatalogCommand,
       AlterArchiveCatalogCommand, DropArchiveCatalogCommand }"

text \<open>
  Of these, drop-connection and list-connection call \<open>commitTransaction\<close> after
  their \<open>try\<close> block; the other six call it as the last statement inside.
\<close>

definition commit_after_try :: "command set" where
  "commit_after_try = { DropConnectionCatalogCommand, ListConnectionCatalogCommand }"

text \<open>The outcome \<open>r\<close> is a failure of \<open>commitTransaction\<close> that reached the caller as raised.\<close>

definition raised_by_commit :: "(raised + 'a) \<times> world \<Rightarrow> bool" where
  "raised_by_commit r \<longleftrightarrow>
     (case fst r of
        Inl (Domain e) \<Rightarrow>
          last (trace (snd r)) = Raised e
          \<and> last (butlast (trace (snd r))) = Call CommitTransaction
      | _ \<Rightarrow> False)"

text \<open>
  Triples for a run of the command layer: from a world that satisfies \<open>P\<close>, a
  normal return with value \<open>x\<close> ends in a world that satisfies \<open>Q x\<close>, and a failure
  \<open>x\<close> ends in a world that satisfies \<open>E x\<close>.
\<close>

definition hoare :: "(world \<Rightarrow> bool) \<Rightarrow> 'a exec \<Rightarrow> ('a \<Rightarrow> world \<Rightarrow> bool) \<Rightarrow> (raised \<Rightarrow> world \<Rightarrow> bool) \<Rightarrow> bool" where
  "hoare P m Q E \<longleftrightarrow>
     (\<forall>s. P s \<longrightarrow> (case m s of (Inr x, s') \<Rightarrow> Q x s' | (Inl x, s') \<Rightarrow> E x s'))"

text \<open>
  A command entered in \<open>s0\<close> has made sure that the catalog is open and nothing
  else: no transaction is open and the rows are those of \<open>s0\<close>.
\<close>

definition idle :: "world \<Rightarrow> world \<Rightarrow> bool" where
  "idle s0 s \<longleftrightarrow>
     \<not> tx_open s \<and> store s = store s0
     \<and> trace s = trace s0 @ (if opened s0 then [] else [Call OpenRW])"

text \<open>A transaction is open; it began with the rows \<open>c\<close>.\<close>

definition in_tx :: "BackupCatalog \<Rightarrow> world \<Rightarrow> bool" where
  "in_tx c s \<longleftrightarrow> tx_open s \<and> snapshot s = c"

text \<open>The transaction has been committed, the commit being the last call.\<close>

definition committed :: "world \<Rightarrow> bool" where
  "committed s \<longleftrightarrow> \<not> tx_open s \<and> last (trace s) = Call CommitTransaction"

text \<open>
  A failure inside the \<open>try\<close> block: it is the last event, and a rollback will
  bring the rows \<open>c\<close> back (the transaction is open and began with \<open>c\<close>, or it is
  not open and the rows are \<open>c\<close>).
\<close>

definition failed_in_tx :: "BackupCatalog \<Rightarrow> raised \<Rightarrow> world \<Rightarrow> bool" where
  "failed_in_tx c x s \<longleftrightarrow>
     (\<exists>e0. x = Domain e0 \<and> trace s \<noteq> [] \<and> last (trace s) = Raised e0)
     \<and> (if tx_open s then snapshot s = c else store s = c)"

text \<open>
  A failure \<open>x\<close> of a command entered in \<open>s\<close>, seen by its caller in \<open>s'\<close>. Either it
  was raised inside the \<open>try\<close> block: the last two events are the failure and the
  rollback, no transaction is open, the rows are those of \<open>s\<close>, and \<open>x\<close> is a
  \<open>CPGBackupCtlFailure\<close> with the message of the failure. Or it was raised before
  the \<open>try\<close> block, by the missing catalog handle, by \<open>open_rw\<close> or by
  \<open>startTransaction\<close>: it is the last event, no transaction is open, the rows are
  those of \<open>s\<close>, and \<open>x\<close> is the failure as it was raised. With \<open>late\<close> set, the
  failure may also be one of a \<open>commitTransaction\<close>, about which nothing more is
  said.
\<close>

definition failed_envelope :: "bool \<Rightarrow> world \<Rightarrow> raised \<Rightarrow> world \<Rightarrow> bool" where
  "failed_envelope late s x s' \<longleftrightarrow>
        (\<exists>e0 b. x = Domain (Failure CPGBackupCtlFailure (what e0))
            \<and> last (trace s') = Call (RollbackTransaction b)
            \<and> last (butlast (trace s')) = Raised e0
            \<and> \<not> tx_open s' \<and> store s' = store s)
      \<or> (\<exists>e0. x = Domain e0 \<and> \<not> tx_open s' \<and> store s' = store s
            \<and> (trace s' = trace s @ [Raised e0]
               \<or> trace s' = trace s @ [Call OpenRW, Raised e0]
               \<or> trace s' = trace s @ (if opened s then [] else [Call OpenRW])
                               @ [Call StartTransaction, Raised e0]))
      \<or> (late \<and> raised_by_commit (Inl x :: raised + unit, s'))"

definition E1 :: failure where
  "E1 = Failure CArchiveIssue ''stream broke''"

definition E2 :: failure where
  "E2 = Failure CCatalogIssue ''catalog broke''"

text \<open>The \<open>k\<close>-th call fails with \<open>e\<close> and the \<open>l\<close>-th with \<open>f\<close>.\<close>

definition fail_at2 :: "nat \<Rightarrow> failure \<Rightarrow> nat \<Rightarrow> failure \<Rightarrow> nat \<Rightarrow> failure option" where
  "fail_at2 k e l f = (\<lambda>n. if n = k then Some e else if n = l then Some f else None)"

text \<open>
  What streaming the tablespaces and closing the stream leave alone: the rows of
  the base backups, the id of the descriptor of the running backup, the
  transaction flag and \<open>basebackup_registered\<close>.
\<close>

definition same_backup :: "world \<Rightarrow> world \<Rightarrow> bool" where
  "same_backup s s' \<longleftrightarrow>
     backups (store s') = backups (store s)
     \<and> bb_id (bbp_descr s') = bb_id (bbp_descr s)
     \<and> tx_open s' = tx_open s
     \<and> basebackup_registered s' = basebackup_registered s"

definition keeps_backup :: "'a exec \<Rightarrow> bool" where
  "keeps_backup m \<longleftrightarrow> (\<forall>s. same_backup s (snd (m s)))"

text \<open>The status of the rows of the base backup with a given id.\<close>

definition status_of :: "int \<Rightarrow> BackupCatalog \<Rightarrow> string list" where
  "status_of bid c = map status (filter (\<lambda>b. bb_id b = bid) (backups c))"

section \<open>Evaluating the commands\<close>

text \<open>
  C4. list-backup-profile in detail mode, claimed to print \<open>NOT RATED\<close> exactly when
  \<open>max_rate\<close> is zero and the number otherwise: for the profile \<open>p\<close> of the example
  catalog, whose \<open>max_rate\<close> is 100, the command prints \<open>MAX RATE\<close> \<open>NOT RATED\<close>, and
  for the profile \<open>default\<close>, whose \<open>max_rate\<close> is 0, it prints \<open>MAX RATE(kbps)\<close> \<open>0\<close>.
  The comparison in the source is \<open>max_rate > 0\<close>.
\<close>

theorem max_rate_line_inverted:
  "max_rate (lookup_profile ''p'' demo_catalog) = 100
   \<and> stdout (snd (ListBackupProfile_execute
        (demo_command\<lparr> tag := LIST_BACKUP_PROFILE_DETAIL,
            backup_profile := new_BackupProfileDescr\<lparr> prof_name := ''p'' \<rparr> \<rparr>)
        False (fresh_world demo_catalog no_faults))) ! 3
       = Line (fmt2 25 30 ''MAX RATE'' ''NOT RATED'')
   \<and> max_rate (lookup_profile ''default'' demo_catalog) = 0
   \<and> stdout (snd (ListBackupProfile_execute
        (demo_command\<lparr> tag := LIST_BACKUP_PROFILE_DETAIL,
            backup_profile := new_BackupProfileDescr\<lparr> prof_name := ''default'' \<rparr> \<rparr>)
        False (fresh_world demo_catalog no_faults))) ! 3
       = Line (fmt2 25 30 ''MAX RATE(kbps)'' ''0'')"
  by code_simp

text \<open>
  C3. drop-archive, claimed to invoke the cascading drop exactly once for an
  archive that exists and not at all for a missing archive under \<open>existsOk\<close>:
  for the archive \<open>a\<close> of the example catalog the command calls \<open>dropArchive\<close>
  twice before it commits, and for the missing archive \<open>b\<close> with \<open>existsOk\<close> it
  calls \<open>dropArchive\<close> once.
\<close>

theorem drop_archive_calls_drop_twice:
  "(let r = DropArchive_execute demo_command False (fresh_world demo_catalog no_faults)
    in fst r = Inr ()
       \<and> trace (snd r) =
           [Call OpenRW, Call StartTransaction, Call (ExistsByName ''a''),
            Call (DropArchive ''a''), Call (DropArchive ''a''), Call CommitTransaction])
   \<and> (let r = DropArchive_execute (demo_command\<lparr> archive_name := ''b'' \<rparr>) True
                (fresh_world demo_catalog no_faults)
      in fst r = Inr ()
         \<and> trace (snd r) =
             [Call OpenRW, Call StartTransaction, Call (ExistsByName ''b''),
              Call (DropArchive ''b''), Call CommitTransaction])"
  by code_simp

section \<open>Running a command step by step\<close>

lemma quiet_later: "quiet_for n s \<Longrightarrow> k < n \<Longrightarrow> faults s (calls s + k) = None"
  by (simp add: quiet_for_def)

lemma quiet_first:
  "quiet_for n s \<Longrightarrow> 0 < n \<Longrightarrow> faults s (calls s) = None"
  "quiet_for n s \<Longrightarrow> 1 < n \<Longrightarrow> faults s (Suc (calls s)) = None"
  "quiet_for n s \<Longrightarrow> 2 < n \<Longrightarrow> faults s (Suc (Suc (calls s))) = None"
  "quiet_for n s \<Longrightarrow> 3 < n \<Longrightarrow> faults s (Suc (Suc (Suc (calls s)))) = None"
  "quiet_for n s \<Longrightarrow> 4 < n \<Longrightarrow> faults s (Suc (Suc (Suc (Suc (calls s))))) = None"
  "quiet_for n s \<Longrightarrow> 5 < n \<Longrightarrow> faults s (Suc (Suc (Suc (Suc (Suc (calls s)))))) = None"
  "quiet_for n s \<Longrightarrow> 6 < n \<Longrightarrow> faults s (Suc (Suc (Suc (Suc (Suc (Suc (calls s))))))) = None"
  "quiet_for n s \<Longrightarrow> 7 < n \<Longrightarrow>
     faults s (Suc (Suc (Suc (Suc (Suc (Suc (Suc (calls s)))))))) = None"
  using quiet_later[of n s 0] quiet_later[of n s 1] quiet_later[of n s 2]
    quiet_later[of n s 3] quiet_later[of n s 4] quiet_later[of n s 5]
    quiet_later[of n s 6] quiet_later[of n s 7]
  by (simp_all add: eval_nat_numeral)

lemma quiet_no_faults: "faults s = no_faults \<Longrightarrow> quiet_for n s"
  by (simp add: quiet_for_def no_faults_def)

lemmas exec_defs = bnd_def thn_def ret_def throw_new_def rethrow_def try_catch_def
  try_catch_exception_def say_def gets_def modify_def invoke_def query_def mutate_def
  external_def no_catalog_def ensure_open_def rollback_and_rethrow_def available_def
  open_rw_def close_catalog_def startTransaction_def commitTransaction_def
  rollbackTransaction_def

lemmas demo_defs = fresh_world_def demo_catalog_def demo_command_def new_CatalogDescr_def
  new_ConnectionDescr_def new_BackupProfileDescr_def new_BaseBackupDescr_def
  archive_named_def lookup_profile_def resolved_profile_name_def
  CONNECTION_TYPE_BASEBACKUP_def CONNECTION_TYPE_UNKNOWN_def

section \<open>start-basebackup: the archive and the profile\<close>

text \<open>
  C10. start-basebackup on an archive name that does not exist, when the calls of
  the lookup transaction succeed: the lookup transaction is committed, then
  \<open>rollbackTransaction\<close> is called while no transaction is in progress, and then the
  archive-missing error is raised, a \<open>CArchiveIssue\<close> whose message is \<open>archive\<close>,
  the name and \<open>doesn't exist\<close>. The trace of the execution is exactly this
  sequence (\<open>open_rw\<close> first when the catalog was not open), and the flag of the
  rollback event says that no transaction was in progress.
\<close>

theorem start_basebackup_missing_archive:
  assumes "has_catalog this"
    and "archive_named (archive_name this) (store s) = None"
    and "quiet_for 4 s"
  shows "fst (StartBasebackup_execute this background s)
           = Inl (Domain (Failure CArchiveIssue
                (''archive '' @ archive_name this @ '' doesn'' @ [CHR 0x27] @ ''t exist'')))
       \<and> trace (snd (StartBasebackup_execute this background s))
           = trace s @ (if opened s then [] else [Call OpenRW])
               @ [Call StartTransaction, Call (ExistsByName (archive_name this)),
                  Call CommitTransaction, Call (RollbackTransaction False),
                  Raised (Failure CArchiveIssue
                (''archive '' @ archive_name this @ '' doesn'' @ [CHR 0x27] @ ''t exist''))]"
  using assms
  by (simp add: StartBasebackup_execute_def sb_prepare_def sb_resolve_archive_def
        existsByName_def lookup_archive_def new_CatalogDescr_def exec_defs Let_def
        archive_named_def archive_missing_def quiet_first)

theorem start_basebackup_missing_archive_witness:
  "fst (StartBasebackup_execute (demo_command\<lparr> archive_name := ''zz'' \<rparr>) False
          (fresh_world demo_catalog no_faults))
     = Inl (Domain (Failure CArchiveIssue (''archive zz doesn'' @ [CHR 0x27] @ ''t exist'')))
   \<and> trace (snd (StartBasebackup_execute (demo_command\<lparr> archive_name := ''zz'' \<rparr>) False
          (fresh_world demo_catalog no_faults)))
     = [Call OpenRW, Call StartTransaction, Call (ExistsByName ''zz''),
        Call CommitTransaction, Call (RollbackTransaction False),
        Raised (Failure CArchiveIssue (''archive zz doesn'' @ [CHR 0x27] @ ''t exist''))]"
proof -
  have h1: "has_catalog (demo_command\<lparr> archive_name := ''zz'' \<rparr>)"
    by (simp add: demo_defs)
  have h2: "archive_named (archive_name (demo_command\<lparr> archive_name := ''zz'' \<rparr>))
              (store (fresh_world demo_catalog no_faults)) = None"
    by (simp add: demo_defs)
  have h3: "quiet_for 4 (fresh_world demo_catalog no_faults)"
    by (rule quiet_no_faults) (simp add: fresh_world_def)
  from start_basebackup_missing_archive[OF h1 h2 h3, of False]
  show ?thesis by (simp add: fresh_world_def)
qed

text \<open>
  C7. start-basebackup for an archive that exists, when the calls of the two
  lookup transactions succeed. The profile looked up is the one named in the
  command, or \<open>default\<close> when no name was given. If the descriptor that comes back
  has \<open>profile_id < 0\<close>, the command fails with the error that names the profile:
  a \<open>CArchiveIssue\<close> whose message is \<open>backup profile "NAME" does not exist\<close> for
  a name given in the command, and the message about the \<open>"default"\<close> profile not
  found when no name was given. The trace ends there: no call of the stream has
  been made. Otherwise
  everything before the streaming block returns the archive descriptor and the
  profile that was loaded from the catalog.
\<close>

theorem start_basebackup_profile_resolution:
  assumes "has_catalog this"
    and "archive_named (archive_name this) (store s) = Some a" and "0 \<le> ar_id a"
    and "quiet_for 8 s"
  shows "(profile_id (lookup_profile (resolved_profile_name this) (store s)) < 0 \<longrightarrow>
          fst (StartBasebackup_execute this background s)
            = Inl (Domain (Failure CArchiveIssue
                      (if prof_name (backup_profile this) \<noteq> ''''
                       then ''backup profile \"'' @ prof_name (backup_profile this)
                              @ ''\" does not exist''
                       else ''\"default\" profile not found: please check your backup catalog or create a new one'')))
          \<and> trace (snd (StartBasebackup_execute this background s))
            = trace s @ (if opened s then [] else [Call OpenRW])
                @ [Call StartTransaction, Call (ExistsByName (archive_name this)),
                   Call (GetCatalogConnection (ar_id a) CONNECTION_TYPE_BASEBACKUP),
                   Call CommitTransaction,
                   Call StartTransaction,
                   Call (GetBackupProfile (resolved_profile_name this)),
                   Call CommitTransaction,
                   Raised (Failure CArchiveIssue
                      (if prof_name (backup_profile this) \<noteq> ''''
                       then ''backup profile \"'' @ prof_name (backup_profile this)
                              @ ''\" does not exist''
                       else ''\"default\" profile not found: please check your backup catalog or create a new one''))])
       \<and> (0 \<le> profile_id (lookup_profile (resolved_profile_name this) (store s)) \<longrightarrow>
          fst (sb_prepare this s)
            = Inr ((descr_of_row a)\<lparr> coninfo :=
                       fill_connection (sb_coninfo_attrs (coninfo (descr_of_row a)))
                         (ar_id a) CONNECTION_TYPE_BASEBACKUP (store s) \<rparr>,
                   lookup_profile (resolved_profile_name this) (store s))
          \<and> trace (snd (sb_prepare this s))
            = trace s @ (if opened s then [] else [Call OpenRW])
                @ [Call StartTransaction, Call (ExistsByName (archive_name this)),
                   Call (GetCatalogConnection (ar_id a) CONNECTION_TYPE_BASEBACKUP),
                   Call CommitTransaction,
                   Call StartTransaction,
                   Call (GetBackupProfile (resolved_profile_name this)),
                   Call CommitTransaction])"
  using assms
  by (cases "prof_name (backup_profile this) = []")
     (simp_all add: StartBasebackup_execute_def sb_prepare_def sb_resolve_archive_def
        sb_resolve_profile_def existsByName_def getCatalogConnection_def
        getBackupProfile_def resolved_profile_name_def lookup_archive_def
        descr_of_row_def setArchiveId_def new_CatalogDescr_def exec_defs Let_def
        archive_named_def profile_missing_def default_profile_missing_def quiet_first)

theorem start_basebackup_profile_resolution_witness:
  "fst (StartBasebackup_execute
          (demo_command\<lparr> backup_profile := new_BackupProfileDescr\<lparr> prof_name := ''q'' \<rparr> \<rparr>)
          False (fresh_world demo_catalog no_faults))
     = Inl (Domain (Failure CArchiveIssue ''backup profile \"q\" does not exist''))
   \<and> snd (projr (fst (sb_prepare demo_command (fresh_world demo_catalog no_faults))))
     = lookup_profile ''default'' demo_catalog"
proof -
  let ?a = "\<lparr> ar_id = 1, ar_name = ''a'', ar_directory = ''/tmp/a'', ar_compression = False \<rparr>"
  let ?q = "demo_command\<lparr> backup_profile := new_BackupProfileDescr\<lparr> prof_name := ''q'' \<rparr> \<rparr>"
  let ?s = "fresh_world demo_catalog no_faults"
  have h1: "has_catalog ?q" "has_catalog demo_command"
    by (simp_all add: demo_defs)
  have h2: "archive_named (archive_name ?q) (store ?s) = Some ?a"
           "archive_named (archive_name demo_command) (store ?s) = Some ?a"
    by (simp_all add: demo_defs)
  have h3: "0 \<le> ar_id ?a" by simp
  have h4: "quiet_for 8 ?s"
    by (rule quiet_no_faults) (simp add: fresh_world_def)
  have m: "profile_id (lookup_profile (resolved_profile_name ?q) (store ?s)) < 0"
    by (simp add: demo_defs)
  have p: "0 \<le> profile_id (lookup_profile (resolved_profile_name demo_command) (store ?s))"
    by (simp add: demo_defs)
  from start_basebackup_profile_resolution[OF h1(1) h2(1) h3 h4, of False] m
       start_basebackup_profile_resolution[OF h1(2) h2(2) h3 h4, of False] p
  show ?thesis
    by (simp add: fresh_world_def resolved_profile_name_def demo_command_def
          new_CatalogDescr_def new_BackupProfileDescr_def)
qed

section \<open>create-backup-profile\<close>

text \<open>
  C5. create-backup-profile, when no transaction is open on entry and the calls of
  the store succeed. If the lookup by name returns \<open>profile_id < 0\<close>, the profile
  is inserted by a call of \<open>createBackupProfile\<close> whose affected-attribute set is
  exactly name, compress_type, max_rate, label, fast_checkpoint, include_wal and
  wait_for_wal: the new row takes these seven columns from the descriptor and
  nothing else. If the profile exists, the rows of the store are unchanged; the
  command returns normally under \<open>existsOk\<close> and fails with "already exists"
  otherwise.
\<close>

theorem create_backup_profile_contract:
  assumes "has_catalog this" and "\<not> tx_open s" and "quiet_for 5 s"
  shows "(profile_id (lookup_profile (prof_name (profileDescr this)) (store s)) < 0 \<longrightarrow>
            fst (CreateBackupProfile_execute this existsOk s) = Inr ()
          \<and> profiles (store (snd (CreateBackupProfile_execute this existsOk s)))
              = profiles (store s)
                @ [\<lparr> profile_id = next_id (map profile_id (profiles (store s))),
                     prof_name = prof_name (profileDescr this),
                     compress_type = compress_type (profileDescr this),
                     max_rate = max_rate (profileDescr this),
                     prof_label = prof_label (profileDescr this),
                     fast_checkpoint = fast_checkpoint (profileDescr this),
                     include_wal = include_wal (profileDescr this),
                     wait_for_wal = wait_for_wal (profileDescr this),
                     noverify_checksums = False,
                     prof_affectedAttributes = [] \<rparr>]
          \<and> trace (snd (CreateBackupProfile_execute this existsOk s))
              = trace s @ (if opened s then [] else [Call OpenRW])
                @ [Call StartTransaction,
                   Call (GetBackupProfile (prof_name (profileDescr this))),
                   Call (CreateBackupProfile
                     ((profileDescr this)\<lparr> prof_affectedAttributes :=
                        [SQL_BCK_PROF_NAME_ATTNO, SQL_BCK_PROF_COMPRESS_TYPE_ATTNO,
                         SQL_BCK_PROF_MAX_RATE_ATTNO, SQL_BCK_PROF_LABEL_ATTNO,
                         SQL_BCK_PROF_FAST_CHKPT_ATTNO, SQL_BCK_PROF_INCL_WAL_ATTNO,
                         SQL_BCK_PROF_WAIT_FOR_WAL_ATTNO] \<rparr>)),
                   Call CommitTransaction])
       \<and> (0 \<le> profile_id (lookup_profile (prof_name (profileDescr this)) (store s)) \<longrightarrow>
            store (snd (CreateBackupProfile_execute this existsOk s)) = store s
          \<and> fst (CreateBackupProfile_execute this existsOk s)
              = (if existsOk then Inr ()
                 else Inl (Domain (Failure CPGBackupCtlFailure
                        (''backup profile '' @ prof_name (profileDescr this)
                           @ '' already exists'')))))"
  using assms
  by (simp add: CreateBackupProfile_execute_def getBackupProfile_def createBackupProfile_def
        create_profile_attr_def profile_row_def put_prof_attr_def new_BackupProfileDescr_def
        sliced_def exec_defs Let_def quiet_first)

theorem create_backup_profile_contract_witness:
  "fst (CreateBackupProfile_execute
          (demo_command\<lparr> profileDescr := new_BackupProfileDescr
             \<lparr> prof_name := ''p'', compress_type := BACKUP_COMPRESS_TYPE_ZSTD \<rparr> \<rparr>)
          False (fresh_world demo_catalog no_faults))
     = Inl (Domain (Failure CPGBackupCtlFailure ''backup profile p already exists''))
   \<and> fst (CreateBackupProfile_execute
          (demo_command\<lparr> profileDescr := new_BackupProfileDescr
             \<lparr> prof_name := ''p'', compress_type := BACKUP_COMPRESS_TYPE_ZSTD \<rparr> \<rparr>)
          True (fresh_world demo_catalog no_faults)) = Inr ()
   \<and> compress_type (lookup_profile ''p'' (store (snd (CreateBackupProfile_execute
          (demo_command\<lparr> profileDescr := new_BackupProfileDescr
             \<lparr> prof_name := ''p'', compress_type := BACKUP_COMPRESS_TYPE_ZSTD \<rparr> \<rparr>)
          True (fresh_world demo_catalog no_faults)))))
     = BACKUP_COMPRESS_TYPE_GZIP
   \<and> map prof_name (profiles (store (snd (CreateBackupProfile_execute
          (demo_command\<lparr> profileDescr := new_BackupProfileDescr\<lparr> prof_name := ''n'' \<rparr> \<rparr>)
          False (fresh_world demo_catalog no_faults)))))
     = [''p'', ''default'', ''n'']"
proof -
  let ?p = "demo_command\<lparr> profileDescr := new_BackupProfileDescr
             \<lparr> prof_name := ''p'', compress_type := BACKUP_COMPRESS_TYPE_ZSTD \<rparr> \<rparr>"
  let ?n = "demo_command\<lparr> profileDescr := new_BackupProfileDescr\<lparr> prof_name := ''n'' \<rparr> \<rparr>"
  let ?s = "fresh_world demo_catalog no_faults"
  have h1: "has_catalog ?p" "has_catalog ?n" by (simp_all add: demo_defs)
  have h2: "\<not> tx_open ?s" by (simp add: fresh_world_def)
  have h3: "quiet_for 5 ?s" by (rule quiet_no_faults) (simp add: fresh_world_def)
  have e: "0 \<le> profile_id (lookup_profile (prof_name (profileDescr ?p)) (store ?s))"
    by (simp add: demo_defs)
  have m: "profile_id (lookup_profile (prof_name (profileDescr ?n)) (store ?s)) < 0"
    by (simp add: demo_defs)
  from create_backup_profile_contract[OF h1(1) h2 h3, of False] e
       create_backup_profile_contract[OF h1(1) h2 h3, of True] e
       create_backup_profile_contract[OF h1(2) h2 h3, of False] m
  show ?thesis by (simp add: demo_defs)
qed

section \<open>create-connection\<close>

text \<open>
  C9. create-connection on an archive that exists, when no transaction is open on
  entry and the calls of the store succeed. If a connection with the same
  \<open>(archive_id, type)\<close> is present, the command fails and the connections of the
  store are unchanged; for every type other than \<open>unknown\<close> the failure is the
  command's own "already has a connection of this type configured", raised before
  any insert is attempted (for the type \<open>unknown\<close> the command's check does not
  fire and it is the primary key of the store that rejects the insert). If no
  such connection is present, the connection of the command is inserted under the
  id of the archive.
\<close>

theorem create_connection_rejects_duplicate:
  assumes "has_catalog this" and "\<not> tx_open s"
    and "archive_named (archive_name this) (store s) = Some a" and "0 \<le> ar_id a"
    and "quiet_for 6 s"
  shows "((\<exists>k \<in> set (connections (store s)). same_key (ar_id a) (con_type (coninfo this)) k) \<longrightarrow>
            (\<exists>e. fst (CreateConnection_execute this flag s) = Inl (Domain e))
          \<and> connections (store (snd (CreateConnection_execute this flag s)))
              = connections (store s)
          \<and> (con_type (coninfo this) \<noteq> CONNECTION_TYPE_UNKNOWN \<longrightarrow>
               fst (CreateConnection_execute this flag s)
                 = Inl (Domain (Failure CPGBackupCtlFailure
                     (''archive \"'' @ archive_name this
                        @ ''\" already has a connection of this type configured''
                        @ [CHR 0x0A])))
             \<and> trace (snd (CreateConnection_execute this flag s))
                 = trace s @ (if opened s then [] else [Call OpenRW])
                   @ [Call StartTransaction, Call (ExistsByName (archive_name this)),
                      Call (GetCatalogConnection (ar_id a) (con_type (coninfo this))),
                      Raised (Failure CCatalogIssue
                        (''archive \"'' @ archive_name this
                           @ ''\" already has a connection of this type configured''
                           @ [CHR 0x0A])),
                      Call (RollbackTransaction True)]))
       \<and> (\<not> (\<exists>k \<in> set (connections (store s)). same_key (ar_id a) (con_type (coninfo this)) k) \<longrightarrow>
            fst (CreateConnection_execute this flag s) = Inr ()
          \<and> connections (store (snd (CreateConnection_execute this flag s)))
              = connections (store s)
                @ [stored_connection ((coninfo this)\<lparr> con_archive_id := ar_id a \<rparr>)])"
proof (cases "find (same_key (ar_id a) (con_type (coninfo this))) (connections (store s))")
  case None
  then have n: "\<not> (\<exists>k \<in> set (connections (store s)). same_key (ar_id a) (con_type (coninfo this)) k)"
    by (simp add: find_None_iff)
  show ?thesis
    using assms None n
    by (simp add: CreateConnection_execute_def existsByName_def getCatalogConnection_def
        createCatalogConnection_def fill_connection_def lookup_archive_def descr_of_row_def
        setArchiveId_def pushAffectedAttribute_def new_ConnectionDescr_def new_CatalogDescr_def
        archive_named_def exec_defs Let_def quiet_first)
next
  case (Some row)
  then have y: "\<exists>k \<in> set (connections (store s)). same_key (ar_id a) (con_type (coninfo this)) k"
    by (metis find_Some_iff nth_mem)
  from Some have r: "con_archive_id row = ar_id a" "con_type row = con_type (coninfo this)"
    by (auto simp: find_Some_iff same_key_def)
  show ?thesis
    using assms Some y r
    by (cases "con_type (coninfo this) = CONNECTION_TYPE_UNKNOWN")
       (simp_all add: CreateConnection_execute_def existsByName_def getCatalogConnection_def
        createCatalogConnection_def fill_connection_def fill_con_attr_def lookup_archive_def descr_of_row_def
        setArchiveId_def pushAffectedAttribute_def new_ConnectionDescr_def new_CatalogDescr_def
        archive_named_def sliced_def pkey_violation_def exec_defs Let_def quiet_first)
qed

theorem create_connection_rejects_duplicate_witness:
  "fst (CreateConnection_execute
          (demo_command\<lparr> coninfo := new_ConnectionDescr\<lparr> con_type := ''basebackup'' \<rparr> \<rparr>)
          False (fresh_world demo_catalog no_faults))
     = Inl (Domain (Failure CPGBackupCtlFailure
         (''archive \"a\" already has a connection of this type configured'' @ [CHR 0x0A])))
   \<and> map con_type (connections (store (snd (CreateConnection_execute
          (demo_command\<lparr> coninfo := new_ConnectionDescr\<lparr> con_type := ''basebackup'' \<rparr> \<rparr>)
          False (fresh_world demo_catalog no_faults))))) = [''basebackup'']
   \<and> fst (CreateConnection_execute
          (demo_command\<lparr> coninfo := new_ConnectionDescr\<lparr> con_type := ''streamer'' \<rparr> \<rparr>)
          False (fresh_world demo_catalog no_faults)) = Inr ()
   \<and> map con_type (connections (store (snd (CreateConnection_execute
          (demo_command\<lparr> coninfo := new_ConnectionDescr\<lparr> con_type := ''streamer'' \<rparr> \<rparr>)
          False (fresh_world demo_catalog no_faults))))) = [''basebackup'', ''streamer'']"
proof -
  let ?a = "\<lparr> ar_id = 1, ar_name = ''a'', ar_directory = ''/tmp/a'', ar_compression = False \<rparr>"
  let ?b = "demo_command\<lparr> coninfo := new_ConnectionDescr\<lparr> con_type := ''basebackup'' \<rparr> \<rparr>"
  let ?t = "demo_command\<lparr> coninfo := new_ConnectionDescr\<lparr> con_type := ''streamer'' \<rparr> \<rparr>"
  let ?s = "fresh_world demo_catalog no_faults"
  have h1: "has_catalog ?b" "has_catalog ?t" by (simp_all add: demo_defs)
  have h2: "\<not> tx_open ?s" by (simp add: fresh_world_def)
  have h3: "archive_named (archive_name ?b) (store ?s) = Some ?a"
           "archive_named (archive_name ?t) (store ?s) = Some ?a"
    by (simp_all add: demo_defs)
  have h4: "0 \<le> ar_id ?a" by simp
  have h5: "quiet_for 6 ?s" by (rule quiet_no_faults) (simp add: fresh_world_def)
  have d: "\<exists>k \<in> set (connections (store ?s)). same_key (ar_id ?a) (con_type (coninfo ?b)) k"
    by (simp add: demo_defs same_key_def)
  have u: "con_type (coninfo ?b) \<noteq> CONNECTION_TYPE_UNKNOWN"
    by (simp add: demo_defs)
  have n: "\<not> (\<exists>k \<in> set (connections (store ?s)). same_key (ar_id ?a) (con_type (coninfo ?t)) k)"
    by (simp add: demo_defs same_key_def)
  from create_connection_rejects_duplicate[OF h1(1) h2 h3(1) h4 h5, of False] d u
       create_connection_rejects_duplicate[OF h1(2) h2 h3(2) h4 h5, of False] n
  show ?thesis by (simp add: demo_defs stored_connection_def)
qed

section \<open>create-archive\<close>

lemma fold_max_ge: "(b::int) \<le> fold max xs b"
proof (induction xs arbitrary: b)
  case Nil
  show ?case by simp
next
  case (Cons x xs)
  have "b \<le> max x b" by simp
  also have "\<dots> \<le> fold max xs (max x b)" by (rule Cons.IH)
  finally show ?case by simp
qed

lemma fold_max_upper: "x \<in> set xs \<Longrightarrow> (x::int) \<le> fold max xs b"
proof (induction xs arbitrary: b)
  case Nil
  then show ?case by simp
next
  case (Cons y ys)
  show ?case
  proof (cases "x = y")
    case True
    have "x \<le> max y b" using True by simp
    also have "\<dots> \<le> fold max ys (max y b)" by (rule fold_max_ge)
    finally show ?thesis by simp
  next
    case False
    with Cons.prems have "x \<in> set ys" by simp
    then show ?thesis using Cons.IH by simp
  qed
qed

lemma next_id_fresh: "x \<in> set ids \<Longrightarrow> x < next_id ids"
  using fold_max_upper[of x ids 0] by (simp add: next_id_def)

lemma next_id_positive: "0 < next_id ids"
  using fold_max_ge[of 0 ids] by (simp add: next_id_def)

lemma one_basebackup_connection_new:
  assumes inv: "one_basebackup_connection c"
    and fresh: "\<not> (\<exists>r \<in> set (connections c). same_key (next_id (map ar_id (archives c))) CONNECTION_TYPE_BASEBACKUP r)"
    and k: "con_archive_id k = next_id (map ar_id (archives c))" "con_type k = CONNECTION_TYPE_BASEBACKUP"
    and row: "ar_id row = next_id (map ar_id (archives c))"
  shows "one_basebackup_connection
           (c\<lparr> archives := archives c @ [row], connections := connections c @ [k] \<rparr>)"
proof -
  have old: "length (basebackup_connections (ar_id a)
               (c\<lparr> archives := archives c @ [row], connections := connections c @ [k] \<rparr>)) = 1"
    if "a \<in> set (archives c)" for a
  proof -
    have "ar_id a < next_id (map ar_id (archives c))"
      using that by (intro next_id_fresh) simp
    then have "\<not> same_key (ar_id a) CONNECTION_TYPE_BASEBACKUP k"
      using k by (simp add: same_key_def)
    then show ?thesis
      using inv that by (simp add: one_basebackup_connection_def basebackup_connections_def)
  qed
  have "filter (same_key (ar_id row) CONNECTION_TYPE_BASEBACKUP) (connections c) = []"
    using fresh row by (simp add: filter_empty_conv)
  then have new: "length (basebackup_connections (ar_id row)
               (c\<lparr> archives := archives c @ [row], connections := connections c @ [k] \<rparr>)) = 1"
    using k row by (simp add: basebackup_connections_def same_key_def)
  show ?thesis
    using old new by (auto simp: one_basebackup_connection_def)
qed

lemma one_basebackup_connection_update:
  assumes "one_basebackup_connection c"
  shows "one_basebackup_connection (c\<lparr> archives := map (update_archive_row d attrs) (archives c) \<rparr>)"
proof -
  have "ar_id (update_archive_row d attrs a) = ar_id a" for a
    by (simp add: update_archive_row_def)
  then show ?thesis
    using assms by (auto simp: one_basebackup_connection_def basebackup_connections_def)
qed

text \<open>
  C6. create-archive. Whenever the command returns normally from a store in which
  every archive has exactly one connection of type \<open>basebackup\<close>, every archive
  of the resulting store has exactly one such connection. If the lookup of the
  directory returned \<open>id < 0\<close>, the archive row and a connection of type
  \<open>basebackup\<close> for the id assigned to the archive, built from the connection
  info of the descriptor, have been inserted between \<open>startTransaction\<close> and
  \<open>commitTransaction\<close> of one transaction.
\<close>

theorem create_archive_basebackup_connection:
  assumes ok: "fst (CreateArchive_execute this existsOk s) = Inr ()"
    and inv: "one_basebackup_connection (store s)"
  shows "one_basebackup_connection (store (snd (CreateArchive_execute this existsOk s)))
       \<and> (descr_id (lookup_archive (\<lambda>a. ar_directory a = directory this) (store s)) < 0 \<longrightarrow>
            archives (store (snd (CreateArchive_execute this existsOk s)))
              = archives (store s)
                @ [\<lparr> ar_id = next_id (map ar_id (archives (store s))),
                     ar_name = archive_name this, ar_directory = directory this,
                     ar_compression = compression this \<rparr>]
          \<and> connections (store (snd (CreateArchive_execute this existsOk s)))
              = connections (store s)
                @ [stored_connection ((coninfo this)
                     \<lparr> con_archive_id := next_id (map ar_id (archives (store s))),
                       con_type := CONNECTION_TYPE_BASEBACKUP \<rparr>)]
          \<and> trace (snd (CreateArchive_execute this existsOk s))
              = trace s @ (if opened s then [] else [Call OpenRW])
                @ [Call StartTransaction, Call (Exists (directory this)),
                   Call (CreateArchive (archive_name this)),
                   Call (CreateCatalogConnection ((coninfo this)
                     \<lparr> con_archive_id := next_id (map ar_id (archives (store s))),
                       con_type := CONNECTION_TYPE_BASEBACKUP \<rparr>)),
                   Call CommitTransaction])"
proof -
  let ?r = "CreateArchive_execute this existsOk s"
  have "fst ?r = Inr () \<longrightarrow>
      one_basebackup_connection (store (snd ?r))
       \<and> (descr_id (lookup_archive (\<lambda>a. ar_directory a = directory this) (store s)) < 0 \<longrightarrow>
            archives (store (snd ?r))
              = archives (store s)
                @ [\<lparr> ar_id = next_id (map ar_id (archives (store s))),
                     ar_name = archive_name this, ar_directory = directory this,
                     ar_compression = compression this \<rparr>]
          \<and> connections (store (snd ?r))
              = connections (store s)
                @ [stored_connection ((coninfo this)
                     \<lparr> con_archive_id := next_id (map ar_id (archives (store s))),
                       con_type := CONNECTION_TYPE_BASEBACKUP \<rparr>)]
          \<and> trace (snd ?r)
              = trace s @ (if opened s then [] else [Call OpenRW])
                @ [Call StartTransaction, Call (Exists (directory this)),
                   Call (CreateArchive (archive_name this)),
                   Call (CreateCatalogConnection ((coninfo this)
                     \<lparr> con_archive_id := next_id (map ar_id (archives (store s))),
                       con_type := CONNECTION_TYPE_BASEBACKUP \<rparr>)),
                   Call CommitTransaction])"
  proof (cases "has_catalog this")
    case False
    then show ?thesis
      by (simp add: CreateArchive_execute_def no_catalog_def throw_new_def)
  next
    case True
    show ?thesis
    proof (cases "descr_id (lookup_archive (\<lambda>a. ar_directory a = directory this) (store s)) < 0")
      case new: True
      show ?thesis
        using True new inv
        by (cases "opened s")
           (simp_all add: CreateArchive_execute_def exists_dir_def createArchive_def
              createCatalogConnection_def setConnectionType_def setArchiveId_def
              stored_connection_def exec_defs Let_def one_basebackup_connection_new
              split: option.splits)
    next
      case old: False
      show ?thesis
        using True old inv
        by (cases "opened s")
           (simp_all add: CreateArchive_execute_def exists_dir_def
              updateArchiveAttributes_def exec_defs Let_def
              one_basebackup_connection_update split: option.splits)
    qed
  qed
  with ok show ?thesis by simp
qed

theorem create_archive_basebackup_connection_witness:
  "one_basebackup_connection (store (snd (CreateArchive_execute
      (demo_command\<lparr> archive_name := ''b'', directory := ''/tmp/b'' \<rparr>) False
      (fresh_world demo_catalog no_faults))))
   \<and> map (\<lambda>k. (con_archive_id k, con_type k)) (connections (store (snd (CreateArchive_execute
      (demo_command\<lparr> archive_name := ''b'', directory := ''/tmp/b'' \<rparr>) False
      (fresh_world demo_catalog no_faults)))))
     = [(1, ''basebackup''), (2, ''basebackup'')]"
proof -
  let ?b = "demo_command\<lparr> archive_name := ''b'', directory := ''/tmp/b'' \<rparr>"
  let ?s = "fresh_world demo_catalog no_faults"
  have ok: "fst (CreateArchive_execute ?b False ?s) = Inr ()"
    by code_simp
  have inv: "one_basebackup_connection (store ?s)"
    by code_simp
  have new: "descr_id (lookup_archive (\<lambda>a. ar_directory a = directory ?b) (store ?s)) < 0"
    by code_simp
  have i: "next_id (map ar_id (archives (store ?s))) = 2"
    by code_simp
  from create_archive_basebackup_connection[OF ok inv] new i
  show ?thesis by (simp add: demo_defs stored_connection_def)
qed

lemma bnd_Inr: "fst (m s) = Inr x \<Longrightarrow> bnd m f s = f x (snd (m s))"
  by (cases "m s") (simp add: bnd_def)

lemma bnd_Inl: "fst (m s) = Inl e \<Longrightarrow> bnd m f s = (Inl e, snd (m s))"
  by (cases "m s") (simp add: bnd_def)

lemma try_catch_Domain: "fst (m s) = Inl (Domain e) \<Longrightarrow> try_catch m h s = h e (snd (m s))"
  by (cases "m s") (simp add: try_catch_def)

lemma try_catch_Inr: "fst (m s) = Inr x \<Longrightarrow> try_catch m h s = (Inr x, snd (m s))"
  by (cases "m s") (simp add: try_catch_def)

lemma status_of_cong:
  "backups c' = backups c \<Longrightarrow> status_of bid c' = status_of bid c"
  by (simp add: status_of_def)

lemma next_id_unused: "filter (\<lambda>b. bb_id b = next_id (map bb_id bs)) bs = []"
proof -
  have "bb_id b \<noteq> next_id (map bb_id bs)" if "b \<in> set bs" for b
    using next_id_fresh[of "bb_id b" "map bb_id bs"] that by simp
  then show ?thesis by (simp add: filter_empty_conv)
qed

lemma same_backup_refl: "same_backup s s"
  by (simp add: same_backup_def)

lemma same_backup_trans: "same_backup s t \<Longrightarrow> same_backup t u \<Longrightarrow> same_backup s u"
  by (simp add: same_backup_def)

lemma keeps_bnd:
  assumes "keeps_backup m" and "\<And>x. keeps_backup (f x)"
  shows "keeps_backup (bnd m f)"
  unfolding keeps_backup_def
proof
  fix s
  show "same_backup s (snd (bnd m f s))"
  proof (cases "m s")
    case (Pair r s')
    have a: "same_backup s s'"
      using assms(1) Pair unfolding keeps_backup_def by (metis snd_conv)
    show ?thesis
    proof (cases r)
      case (Inl e)
      with Pair a show ?thesis by (simp add: bnd_def)
    next
      case (Inr x)
      have "same_backup s' (snd (f x s'))"
        using assms(2)[of x] unfolding keeps_backup_def by simp
      with a have "same_backup s (snd (f x s'))" by (rule same_backup_trans)
      with Pair Inr show ?thesis by (simp add: bnd_def)
    qed
  qed
qed

lemma keeps_thn: "keeps_backup m \<Longrightarrow> keeps_backup k \<Longrightarrow> keeps_backup (thn m k)"
  unfolding thn_def by (rule keeps_bnd)

lemma keeps_gets: "keeps_backup (gets f)"
  by (simp add: keeps_backup_def gets_def same_backup_def)

lemma keeps_external: "keeps_backup (external c)"
  by (simp add: keeps_backup_def external_def invoke_def same_backup_def Let_def
        split: option.splits)

lemma keeps_stream_end: "keeps_backup stream_end"
  by (simp add: keeps_backup_def stream_end_def invoke_def same_backup_def Let_def
        split: option.splits)

lemma keeps_registerTablespaceForBackup: "keeps_backup (registerTablespaceForBackup t)"
  by (simp add: keeps_backup_def registerTablespaceForBackup_def invoke_def same_backup_def
        Let_def split: option.splits)

lemma keeps_sb_tablespaces: "keeps_backup (sb_tablespaces ts)"
proof (induction ts)
  case Nil
  show ?case by (simp add: keeps_external)
next
  case (Cons t ts)
  show ?case
    by (simp del: bnd_def add: keeps_thn keeps_bnd keeps_gets keeps_external
          keeps_registerTablespaceForBackup Cons.IH)
qed

lemma stream_tail_keep:
  "same_backup (s\<lparr> basebackup_registered := True \<rparr>) (snd (sb_stream_tail s))"
proof -
  have k: "keeps_backup (thn (external ReadTablespaceInfo)
             (thn (bnd (gets bbp_tablespaces) sb_tablespaces)
                (thn stream_end (external StreamDisconnect))))"
    by (intro keeps_thn keeps_bnd keeps_gets keeps_external keeps_stream_end
          keeps_sb_tablespaces)
  have "sb_stream_tail s
          = thn (external ReadTablespaceInfo)
             (thn (bnd (gets bbp_tablespaces) sb_tablespaces)
                (thn stream_end (external StreamDisconnect)))
              (s\<lparr> basebackup_registered := True \<rparr>)"
    by (simp add: sb_stream_tail_def thn_def bnd_def modify_def)
  with k show ?thesis by (simp add: keeps_backup_def)
qed

lemma thn_external:
  "thn (external c) k s =
     (case faults s (calls s) of
        Some e \<Rightarrow> (Inl (Domain e),
                   s\<lparr> trace := trace s @ [Call c, Raised e], calls := Suc (calls s) \<rparr>)
      | None \<Rightarrow> k (s\<lparr> trace := trace s @ [Call c], calls := Suc (calls s) \<rparr>))"
  by (simp add: exec_defs Let_def split: option.splits)

lemma register_post:
  "basebackup_registered (snd (sb_register t s)) = basebackup_registered s
   \<and> (fst (sb_register t s) = Inr () \<longrightarrow>
        \<not> tx_open (snd (sb_register t s))
        \<and> status_of (bb_id (bbp_descr (snd (sb_register t s)))) (store (snd (sb_register t s)))
            = [BASEBACKUP_STATUS_IN_PROGRESS])"
  by (simp add: sb_register_def registerBasebackup_def exec_defs Let_def status_of_def
        next_id_unused split: option.splits)

lemma block_post:
  assumes "\<not> basebackup_registered s"
  shows "(fst (sb_stream_block t p s) = Inr () \<longrightarrow> basebackup_registered (snd (sb_stream_block t p s)))
       \<and> (basebackup_registered (snd (sb_stream_block t p s)) \<longrightarrow>
            \<not> tx_open (snd (sb_stream_block t p s))
            \<and> status_of (bb_id (bbp_descr (snd (sb_stream_block t p s))))
                 (store (snd (sb_stream_block t p s))) = [BASEBACKUP_STATUS_IN_PROGRESS])"
proof -
  have step: "(fst (thn (sb_register t) sb_stream_tail s') = Inr ()
                 \<longrightarrow> basebackup_registered (snd (thn (sb_register t) sb_stream_tail s')))
       \<and> (basebackup_registered (snd (thn (sb_register t) sb_stream_tail s')) \<longrightarrow>
            \<not> tx_open (snd (thn (sb_register t) sb_stream_tail s'))
            \<and> status_of (bb_id (bbp_descr (snd (thn (sb_register t) sb_stream_tail s'))))
                 (store (snd (thn (sb_register t) sb_stream_tail s')))
                = [BASEBACKUP_STATUS_IN_PROGRESS])"
    if "\<not> basebackup_registered s'" for s'
  proof (cases "fst (sb_register t s')")
    case (Inl e)
    then have "thn (sb_register t) sb_stream_tail s' = (Inl e, snd (sb_register t s'))"
      unfolding thn_def by (rule bnd_Inl)
    with that register_post[of t s'] show ?thesis by simp
  next
    case (Inr u)
    let ?s2 = "snd (sb_register t s')"
    from Inr have run: "thn (sb_register t) sb_stream_tail s' = sb_stream_tail ?s2"
      unfolding thn_def by (simp add: bnd_Inr)
    from Inr register_post[of t s']
    have r: "\<not> tx_open ?s2"
        "status_of (bb_id (bbp_descr ?s2)) (store ?s2) = [BASEBACKUP_STATUS_IN_PROGRESS]"
      by simp_all
    from stream_tail_keep[of ?s2]
    have k: "backups (store (snd (sb_stream_tail ?s2))) = backups (store ?s2)"
       "bb_id (bbp_descr (snd (sb_stream_tail ?s2))) = bb_id (bbp_descr ?s2)"
       "tx_open (snd (sb_stream_tail ?s2)) = tx_open ?s2"
       "basebackup_registered (snd (sb_stream_tail ?s2))"
      by (simp_all add: same_backup_def)
    show ?thesis
      using r k by (simp add: run status_of_cong[OF k(1)])
  qed
  show ?thesis
    using assms
    by (simp add: sb_stream_block_def thn_external step split: option.splits)
qed

section \<open>start-basebackup: failures after the registration\<close>

text \<open>
  C1, as stated, fails. In the example world the seventeenth call
  (\<open>readTablespaceInfo\<close>, after the registration) fails and so does the
  \<open>startTransaction\<close> of the handler: \<open>abortBasebackup\<close> is never called. And when it
  is the commit of the finalizing transaction that fails, no compensation is
  attempted at all and the backup stays \<open>in progress\<close>.
\<close>

theorem abort_not_always_called:
  "(let r = StartBasebackup_execute demo_command False
              (fresh_world demo_catalog (fail_at2 17 E1 18 E2))
    in fst r = Inl (Domain (sliced E1)) \<and> basebackup_registered (snd r)
       \<and> (\<forall>i. Call (AbortBasebackup i) \<notin> set (trace (snd r))))
   \<and> (let r = StartBasebackup_execute demo_command False
                (fresh_world demo_catalog (fail_at 23 E2))
      in fst r = Inl (Domain (sliced E2)) \<and> basebackup_registered (snd r)
         \<and> (\<forall>i. Call (AbortBasebackup i) \<notin> set (trace (snd r)))
         \<and> status_of 1 (store (snd r)) = [BASEBACKUP_STATUS_IN_PROGRESS])"
proof -
  have a: "trace (snd (StartBasebackup_execute demo_command False
              (fresh_world demo_catalog (fail_at2 17 E1 18 E2))))
    = [Call OpenRW, Call StartTransaction, Call (ExistsByName ''a''),
       Call (GetCatalogConnection 1 ''basebackup''), Call CommitTransaction,
       Call StartTransaction, Call (GetBackupProfile ''default''), Call CommitTransaction,
       Call StreamConnect, Call StreamIdentify, Call (StreamBasebackup ''default''),
       Call StreamStart, Call StartTransaction, Call DirectoryInitialize,
       Call DirectoryCreate, Call (RegisterBasebackup 1), Call CommitTransaction,
       Call ReadTablespaceInfo, Raised E1, Call StartTransaction, Raised E2]"
    by code_simp
  have b: "trace (snd (StartBasebackup_execute demo_command False
              (fresh_world demo_catalog (fail_at 23 E2))))
    = [Call OpenRW, Call StartTransaction, Call (ExistsByName ''a''),
       Call (GetCatalogConnection 1 ''basebackup''), Call CommitTransaction,
       Call StartTransaction, Call (GetBackupProfile ''default''), Call CommitTransaction,
       Call StreamConnect, Call StreamIdentify, Call (StreamBasebackup ''default''),
       Call StreamStart, Call StartTransaction, Call DirectoryInitialize,
       Call DirectoryCreate, Call (RegisterBasebackup 1), Call CommitTransaction,
       Call ReadTablespaceInfo, Call StepTablespace, Call StreamEnd, Call StreamDisconnect,
       Call StartTransaction, Call (FinalizeBasebackup 1), Call CommitTransaction,
       Raised E2, Call (RollbackTransaction True)]"
    by code_simp
  have c: "fst (StartBasebackup_execute demo_command False
              (fresh_world demo_catalog (fail_at2 17 E1 18 E2))) = Inl (Domain (sliced E1))"
     "basebackup_registered (snd (StartBasebackup_execute demo_command False
              (fresh_world demo_catalog (fail_at2 17 E1 18 E2))))"
     "fst (StartBasebackup_execute demo_command False
              (fresh_world demo_catalog (fail_at 23 E2))) = Inl (Domain (sliced E2))"
     "basebackup_registered (snd (StartBasebackup_execute demo_command False
              (fresh_world demo_catalog (fail_at 23 E2))))"
     "status_of 1 (store (snd (StartBasebackup_execute demo_command False
              (fresh_world demo_catalog (fail_at 23 E2))))) = [BASEBACKUP_STATUS_IN_PROGRESS]"
    by code_simp+
  show ?thesis
    unfolding Let_def using c by (simp add: a b)
qed

lemma abort_handler_result:
  assumes "basebackup_registered s"
  shows "fst (sb_abort_handler e s) = Inl (Domain (sliced e))"
    and "trace (snd (sb_abort_handler e s)) = trace s @ compensation_trace s"
  using assms
  by (simp_all add: sb_abort_handler_def abortBasebackup_def compensation_trace_def
        exec_defs Let_def split: option.splits)

text \<open>
  C1, as amended. When everything before the streaming block has succeeded and a
  failure \<open>e\<close> is raised inside the streaming \<open>try\<close> block after the base backup
  has been registered, the handler calls \<open>startTransaction\<close> and, if that call
  succeeds, \<open>abortBasebackup\<close> and \<open>commitTransaction\<close>; if \<open>abortBasebackup\<close> or
  the commit fails the transaction is rolled back, and if \<open>startTransaction\<close> fails
  nothing more is called. Whatever the handler's calls do, the secondary failure
  is discarded: the command raises a \<open>CPGBackupCtlFailure\<close> that carries the
  message of the original failure \<open>e\<close>.
\<close>

theorem abort_never_masks:
  assumes "fst (sb_prepare this s) = Inr (temp_descr, backupProfile)"
    and "fst (sb_block_result this temp_descr backupProfile s) = Inl (Domain e)"
    and "basebackup_registered (snd (sb_block_result this temp_descr backupProfile s))"
  shows "fst (StartBasebackup_execute this background s) = Inl (Domain (sliced e))
       \<and> what (sliced e) = what e
       \<and> trace (snd (StartBasebackup_execute this background s))
           = trace (snd (sb_block_result this temp_descr backupProfile s))
             @ compensation_trace (snd (sb_block_result this temp_descr backupProfile s))"
proof -
  let ?s0 = "snd (sb_prepare this s)"
  let ?s1 = "snd (sb_block_result this temp_descr backupProfile s)"
  have phase: "sb_stream_phase temp_descr backupProfile ?s0 = sb_abort_handler e ?s1"
    using assms(2) unfolding sb_stream_phase_def sb_block_result_def
    by (rule try_catch_Domain)
  have run: "StartBasebackup_execute this background s
               = thn (sb_stream_phase temp_descr backupProfile) sb_finalize ?s0"
    unfolding StartBasebackup_execute_def
    by (simp add: bnd_Inr[of "sb_prepare this" s "(temp_descr, backupProfile)", OF assms(1)])
  have "fst (sb_stream_phase temp_descr backupProfile ?s0) = Inl (Domain (sliced e))"
    using phase abort_handler_result(1)[OF assms(3)] by simp
  then have "thn (sb_stream_phase temp_descr backupProfile) sb_finalize ?s0
               = (Inl (Domain (sliced e)), snd (sb_abort_handler e ?s1))"
    unfolding thn_def using phase by (simp add: bnd_Inl)
  with run abort_handler_result(2)[OF assms(3), of e]
  show ?thesis by (simp add: sliced_def)
qed

theorem abort_never_masks_witness:
  "fst (StartBasebackup_execute demo_command False
          (fresh_world demo_catalog (fail_at2 17 E1 19 E2)))
     = Inl (Domain (Failure CPGBackupCtlFailure ''stream broke''))
   \<and> trace (snd (StartBasebackup_execute demo_command False
          (fresh_world demo_catalog (fail_at2 17 E1 19 E2))))
     = trace (snd (sb_block_result demo_command
          (fst (projr (fst (sb_prepare demo_command
             (fresh_world demo_catalog (fail_at2 17 E1 19 E2))))))
          (snd (projr (fst (sb_prepare demo_command
             (fresh_world demo_catalog (fail_at2 17 E1 19 E2))))))
          (fresh_world demo_catalog (fail_at2 17 E1 19 E2))))
       @ [Call StartTransaction, Call (AbortBasebackup 1), Raised E2,
          Call (RollbackTransaction True)]"
proof -
  let ?s = "fresh_world demo_catalog (fail_at2 17 E1 19 E2)"
  let ?t = "fst (projr (fst (sb_prepare demo_command ?s)))"
  let ?p = "snd (projr (fst (sb_prepare demo_command ?s)))"
  have h1: "fst (sb_prepare demo_command ?s) = Inr (?t, ?p)"
    by code_simp
  have h2: "fst (sb_block_result demo_command ?t ?p ?s) = Inl (Domain E1)"
    by code_simp
  have h3: "basebackup_registered (snd (sb_block_result demo_command ?t ?p ?s))"
    by code_simp
  have c: "compensation_trace (snd (sb_block_result demo_command ?t ?p ?s))
             = [Call StartTransaction, Call (AbortBasebackup 1), Raised E2,
                Call (RollbackTransaction True)]"
    by code_simp
  from abort_never_masks[OF h1 h2 h3, of False] c
  show ?thesis by (simp add: sliced_def E1_def)
qed

lemma abort_handler_fails: "fst (sb_abort_handler e s) = Inl (Domain (sliced e))"
  by (simp add: sb_abort_handler_def abortBasebackup_def exec_defs Let_def
        split: option.splits)

lemma quiet_for_3_iff:
  "quiet_for 3 s \<longleftrightarrow> faults s (calls s) = None \<and> faults s (Suc (calls s)) = None
     \<and> faults s (Suc (Suc (calls s))) = None"
proof
  assume q: "quiet_for 3 s"
  show "faults s (calls s) = None \<and> faults s (Suc (calls s)) = None
     \<and> faults s (Suc (Suc (calls s))) = None"
    using quiet_first(1-3)[OF q] by simp
next
  assume a: "faults s (calls s) = None \<and> faults s (Suc (calls s)) = None
     \<and> faults s (Suc (Suc (calls s))) = None"
  show "quiet_for 3 s"
    unfolding quiet_for_def
  proof (intro allI impI)
    fix k :: nat
    assume "k < 3"
    then have "k = 0 \<or> k = 1 \<or> k = 2" by arith
    with a show "faults s (calls s + k) = None" by auto
  qed
qed

lemma status_of_set_status:
  assumes "status_of bid c = [x]" and "\<And>b. bb_id (f b) = bb_id b" and "\<And>b. status (f b) = y"
  shows "status_of bid (set_status bid f c) = [y]"
proof -
  have "filter (\<lambda>b. bb_id b = bid) (map (\<lambda>b. if bb_id b = bid then f b else b) bs)
          = map f (filter (\<lambda>b. bb_id b = bid) bs)" for bs
    by (induction bs) (simp_all add: assms(2))
  then have "status_of bid (set_status bid f c)
               = map (\<lambda>b. y) (filter (\<lambda>b. bb_id b = bid) (backups c))"
    by (simp add: status_of_def set_status_def assms(3) comp_def)
  moreover have "length (filter (\<lambda>b. bb_id b = bid) (backups c)) = 1"
    using assms(1) by (metis length_map list.size(3,4) status_of_def One_nat_def add_0)
  ultimately show ?thesis
    by (metis (no_types, lifting) length_0_conv length_Suc_conv length_map list.simps(8,9) One_nat_def map_replicate_const replicate_Suc replicate_0)
qed

lemma finalize_result:
  assumes "\<not> tx_open s"
    and "status_of (bb_id (bbp_descr s)) (store s) = [BASEBACKUP_STATUS_IN_PROGRESS]"
    and "fst (sb_finalize s) = Inr ()"
  shows "status_of (bb_id (bbp_descr (snd (sb_finalize s)))) (store (snd (sb_finalize s)))
           = [BASEBACKUP_STATUS_READY]"
  using assms
  by (simp add: sb_finalize_def finalizeBasebackup_def exec_defs Let_def
        status_of_set_status[where x = BASEBACKUP_STATUS_IN_PROGRESS]
        split: option.splits)

lemma handler_status:
  assumes "basebackup_registered s" and "\<not> tx_open s"
    and "status_of (bb_id (bbp_descr s)) (store s) = [BASEBACKUP_STATUS_IN_PROGRESS]"
  shows "status_of (bb_id (bbp_descr (snd (sb_abort_handler e s))))
           (store (snd (sb_abort_handler e s)))
           = [if quiet_for 3 s then BASEBACKUP_STATUS_ABORTED
              else BASEBACKUP_STATUS_IN_PROGRESS]"
  using assms
  by (simp add: sb_abort_handler_def abortBasebackup_def exec_defs Let_def quiet_for_3_iff
        status_of_set_status[where x = BASEBACKUP_STATUS_IN_PROGRESS]
        split: option.splits)

lemma prepare_post: "\<not> basebackup_registered (snd (sb_prepare this s))"
  by (simp add: sb_prepare_def sb_resolve_archive_def sb_resolve_profile_def
        existsByName_def getCatalogConnection_def getBackupProfile_def exec_defs Let_def
        split: option.splits)

text \<open>
  C2, as stated, fails. In the example world the seventeenth call
  (\<open>readTablespaceInfo\<close>, after the registration) fails and so does the
  \<open>abortBasebackup\<close> of the handler: the compensating transaction is rolled back,
  the command raises the original failure, and the base backup it registered is
  left \<open>in progress\<close>. The same holds when \<open>finalizeBasebackup\<close> itself fails.
\<close>

theorem backup_left_in_progress:
  "(let r = StartBasebackup_execute demo_command False
              (fresh_world demo_catalog (fail_at2 17 E1 19 E2))
    in fst r = Inl (Domain (sliced E1)) \<and> basebackup_registered (snd r)
       \<and> bb_id (bbp_descr (snd r)) = 1
       \<and> status_of 1 (store (snd r)) = [BASEBACKUP_STATUS_IN_PROGRESS])
   \<and> (let r = StartBasebackup_execute demo_command False
                (fresh_world demo_catalog (fail_at 22 E2))
      in fst r = Inl (Domain (sliced E2)) \<and> basebackup_registered (snd r)
         \<and> bb_id (bbp_descr (snd r)) = 1
         \<and> status_of 1 (store (snd r)) = [BASEBACKUP_STATUS_IN_PROGRESS])"
  by code_simp

text \<open>
  C2, as amended. For every run of start-basebackup: if the command returns
  normally, it has registered a base backup and the status of that backup is
  \<open>ready\<close>. If a failure is raised inside the streaming \<open>try\<close> block after the
  registration, the command raises, and the status of the registered backup is
  \<open>aborted\<close> when the three calls of the compensating transaction
  (\<open>startTransaction\<close>, \<open>abortBasebackup\<close>, \<open>commitTransaction\<close>) succeed and
  \<open>in progress\<close> when one of them fails.
\<close>

theorem start_basebackup_final_status:
  "(fst (StartBasebackup_execute this background s) = Inr () \<longrightarrow>
      basebackup_registered (snd (StartBasebackup_execute this background s))
      \<and> status_of (bb_id (bbp_descr (snd (StartBasebackup_execute this background s))))
            (store (snd (StartBasebackup_execute this background s)))
          = [BASEBACKUP_STATUS_READY])
   \<and> (fst (sb_prepare this s) = Inr (temp_descr, backupProfile)
       \<and> fst (sb_block_result this temp_descr backupProfile s) = Inl (Domain e)
       \<and> basebackup_registered (snd (sb_block_result this temp_descr backupProfile s)) \<longrightarrow>
      fst (StartBasebackup_execute this background s) = Inl (Domain (sliced e))
      \<and> status_of (bb_id (bbp_descr (snd (StartBasebackup_execute this background s))))
            (store (snd (StartBasebackup_execute this background s)))
          = [if quiet_for 3 (snd (sb_block_result this temp_descr backupProfile s))
             then BASEBACKUP_STATUS_ABORTED else BASEBACKUP_STATUS_IN_PROGRESS])"
proof (intro conjI impI)
  assume ok: "fst (StartBasebackup_execute this background s) = Inr ()"
  let ?s0 = "snd (sb_prepare this s)"
  obtain t p where prep: "fst (sb_prepare this s) = Inr (t, p)"
  proof (cases "fst (sb_prepare this s)")
    case (Inl x)
    then have "fst (StartBasebackup_execute this background s) = Inl x"
      unfolding StartBasebackup_execute_def by (simp add: bnd_Inl)
    with ok show ?thesis by simp
  next
    case (Inr tp)
    then show ?thesis using that[of "fst tp" "snd tp"] by simp
  qed
  have run: "StartBasebackup_execute this background s
               = thn (sb_stream_phase t p) sb_finalize ?s0"
    unfolding StartBasebackup_execute_def
    by (simp add: bnd_Inr[of "sb_prepare this" s "(t, p)", OF prep])
  let ?s1 = "snd (sb_stream_block t p ?s0)"
  have blk: "fst (sb_stream_block t p ?s0) = Inr ()"
  proof (cases "fst (sb_stream_block t p ?s0)")
    case (Inl x)
    have "fst (sb_stream_phase t p ?s0) = Inl (case x of Domain e \<Rightarrow> Domain (sliced e)
                                                | StdException \<Rightarrow> StdException)"
    proof (cases x)
      case (Domain e)
      with Inl show ?thesis
        unfolding sb_stream_phase_def
        by (simp add: try_catch_Domain abort_handler_fails)
    next
      case StdException
      with Inl show ?thesis
        unfolding sb_stream_phase_def
        by (cases "sb_stream_block t p ?s0") (simp add: try_catch_def)
    qed
    then have "fst (thn (sb_stream_phase t p) sb_finalize ?s0) = Inl (case x of Domain e \<Rightarrow> Domain (sliced e)
                                                | StdException \<Rightarrow> StdException)"
      unfolding thn_def by (simp add: bnd_Inl)
    with ok run show ?thesis by simp
  next
    case (Inr u)
    then show ?thesis by simp
  qed
  then have phase: "sb_stream_phase t p ?s0 = (Inr (), ?s1)"
    unfolding sb_stream_phase_def by (rule try_catch_Inr)
  then have fin: "StartBasebackup_execute this background s = sb_finalize ?s1"
    using run unfolding thn_def by (simp add: bnd_def)
  from block_post[OF prepare_post, of t p this s] blk
  have post: "basebackup_registered ?s1" "\<not> tx_open ?s1"
      "status_of (bb_id (bbp_descr ?s1)) (store ?s1) = [BASEBACKUP_STATUS_IN_PROGRESS]"
    by simp_all
  have reg: "basebackup_registered (snd (sb_finalize ?s1))"
    using post(1)
    by (simp add: sb_finalize_def finalizeBasebackup_def exec_defs Let_def
          split: option.splits)
  from ok fin have "fst (sb_finalize ?s1) = Inr ()" by simp
  from finalize_result[OF post(2,3) this] reg
  show "basebackup_registered (snd (StartBasebackup_execute this background s))"
    and "status_of (bb_id (bbp_descr (snd (StartBasebackup_execute this background s))))
            (store (snd (StartBasebackup_execute this background s)))
          = [BASEBACKUP_STATUS_READY]"
    by (simp_all add: fin)
next
  assume h: "fst (sb_prepare this s) = Inr (temp_descr, backupProfile)
       \<and> fst (sb_block_result this temp_descr backupProfile s) = Inl (Domain e)
       \<and> basebackup_registered (snd (sb_block_result this temp_descr backupProfile s))"
  let ?s0 = "snd (sb_prepare this s)"
  let ?s1 = "snd (sb_block_result this temp_descr backupProfile s)"
  from h have prep: "fst (sb_prepare this s) = Inr (temp_descr, backupProfile)"
    and blk: "fst (sb_stream_block temp_descr backupProfile ?s0) = Inl (Domain e)"
    and reg: "basebackup_registered ?s1"
    by (simp_all add: sb_block_result_def)
  have phase: "sb_stream_phase temp_descr backupProfile ?s0 = sb_abort_handler e ?s1"
    using blk unfolding sb_stream_phase_def sb_block_result_def
    by (rule try_catch_Domain)
  have run: "StartBasebackup_execute this background s
               = thn (sb_stream_phase temp_descr backupProfile) sb_finalize ?s0"
    unfolding StartBasebackup_execute_def
    by (simp add: bnd_Inr[of "sb_prepare this" s "(temp_descr, backupProfile)", OF prep])
  have "fst (sb_stream_phase temp_descr backupProfile ?s0) = Inl (Domain (sliced e))"
    using phase abort_handler_fails by simp
  then have whole: "StartBasebackup_execute this background s
               = (Inl (Domain (sliced e)), snd (sb_abort_handler e ?s1))"
    unfolding run thn_def using phase by (simp add: bnd_Inl)
  from block_post[OF prepare_post, of temp_descr backupProfile this s] reg
  have post: "\<not> tx_open ?s1"
      "status_of (bb_id (bbp_descr ?s1)) (store ?s1) = [BASEBACKUP_STATUS_IN_PROGRESS]"
    by (simp_all add: sb_block_result_def)
  from handler_status[OF reg post, of e] whole
  show "fst (StartBasebackup_execute this background s) = Inl (Domain (sliced e))"
    and "status_of (bb_id (bbp_descr (snd (StartBasebackup_execute this background s))))
            (store (snd (StartBasebackup_execute this background s)))
          = [if quiet_for 3 (snd (sb_block_result this temp_descr backupProfile s))
             then BASEBACKUP_STATUS_ABORTED else BASEBACKUP_STATUS_IN_PROGRESS]"
    by simp_all
qed

theorem start_basebackup_final_status_witness:
  "status_of 1 (store (snd (StartBasebackup_execute demo_command False
      (fresh_world demo_catalog no_faults)))) = [BASEBACKUP_STATUS_READY]
   \<and> fst (StartBasebackup_execute demo_command False
        (fresh_world demo_catalog (fail_at 17 E1)))
      = Inl (Domain (sliced E1))
   \<and> status_of 1 (store (snd (StartBasebackup_execute demo_command False
        (fresh_world demo_catalog (fail_at 17 E1))))) = [BASEBACKUP_STATUS_ABORTED]"
proof -
  let ?s = "fresh_world demo_catalog no_faults"
  let ?f = "fresh_world demo_catalog (fail_at 17 E1)"
  let ?t = "fst (projr (fst (sb_prepare demo_command ?f)))"
  let ?p = "snd (projr (fst (sb_prepare demo_command ?f)))"
  have ok: "fst (StartBasebackup_execute demo_command False ?s) = Inr ()"
    by code_simp
  have i: "bb_id (bbp_descr (snd (StartBasebackup_execute demo_command False ?s))) = 1"
          "bb_id (bbp_descr (snd (StartBasebackup_execute demo_command False ?f))) = 1"
    by code_simp+
  have h1: "fst (sb_prepare demo_command ?f) = Inr (?t, ?p)"
    by code_simp
  have h2: "fst (sb_block_result demo_command ?t ?p ?f) = Inl (Domain E1)"
    by code_simp
  have h3: "basebackup_registered (snd (sb_block_result demo_command ?t ?p ?f))"
    by code_simp
  have q: "quiet_for 3 (snd (sb_block_result demo_command ?t ?p ?f))"
    unfolding quiet_for_3_iff by code_simp
  from start_basebackup_final_status[of demo_command False ?s] ok i(1)
       start_basebackup_final_status[of demo_command False ?f ?t ?p E1] h1 h2 h3 q i(2)
  show ?thesis by simp
qed

section \<open>The transaction envelope of the commands\<close>

text \<open>
  C8, as stated, fails. (1) In start-basebackup the commit of the compensating
  transaction fails with \<open>E2\<close> inside that transaction: the transaction is rolled
  back, but \<open>E2\<close> is discarded and the caller receives the earlier failure \<open>E1\<close>.
  (2) list-archive returns normally without any commit: it closes the catalog
  while its transaction is open. (3) drop-backup-profile catches \<open>exception&\<close>: the
  caller receives a bare \<open>std::exception\<close>, not the \<open>CCatalogIssue\<close> that was raised.
  (4) create-archive looks the directory up after \<open>startTransaction\<close> but before its
  \<open>try\<close> block: a failure of the lookup is not rolled back.
\<close>

theorem envelope_not_uniform:
  "(let r = StartBasebackup_execute demo_command False
              (fresh_world demo_catalog (fail_at2 17 E1 20 E2))
    in fst r = Inl (Domain (Failure CPGBackupCtlFailure ''stream broke''))
       \<and> drop 17 (trace (snd r))
           = [Call ReadTablespaceInfo, Raised E1, Call StartTransaction,
              Call (AbortBasebackup 1), Call CommitTransaction, Raised E2,
              Call (RollbackTransaction True)])
   \<and> (let r = ListArchive_execute demo_command False (fresh_world demo_catalog no_faults)
      in fst r = Inr () \<and> tx_open (snd r)
         \<and> trace (snd r)
             = [Call OpenRW, Call StartTransaction, Call GetArchiveList, Call CloseCatalog])
   \<and> (let r = DropBackupProfile_execute
                (demo_command\<lparr> backup_profile := new_BackupProfileDescr\<lparr> prof_name := ''q'' \<rparr> \<rparr>)
                False (fresh_world demo_catalog no_faults)
      in fst r = Inl StdException
         \<and> trace (snd r)
             = [Call OpenRW, Call StartTransaction, Call (GetBackupProfile ''q''),
                Raised (Failure CCatalogIssue (''backup profile \"q\"'' @ [CHR 0x0A])),
                Call (RollbackTransaction True)])
   \<and> (let r = CreateArchive_execute (demo_command\<lparr> directory := ''/tmp/b'' \<rparr>) False
                (fresh_world demo_catalog (fail_at 2 E2))
      in fst r = Inl (Domain E2) \<and> tx_open (snd r)
         \<and> trace (snd r)
             = [Call OpenRW, Call StartTransaction, Call (Exists ''/tmp/b''), Raised E2])"
  by code_simp

text \<open>
  The rules of the triples: sequencing, the conditional, the calls of the catalog
  inside and outside the \<open>try\<close> block, and the handler that rolls back and
  rethrows.
\<close>

lemma hoare_bnd:
  assumes "hoare P m Q E" and "\<And>x. hoare (Q x) (f x) R E"
  shows "hoare P (bnd m f) R E"
  using assms unfolding hoare_def bnd_def
  by (fastforce split: prod.splits sum.splits)

lemma hoare_thn:
  assumes "hoare P m (\<lambda>_. Q) E" and "hoare Q k R E"
  shows "hoare P (thn m k) R E"
  unfolding thn_def using assms by (intro hoare_bnd)

lemma hoare_if:
  assumes "b \<Longrightarrow> hoare P m Q E" and "\<not> b \<Longrightarrow> hoare P k Q E"
  shows "hoare P (if b then m else k) Q E"
  using assms by simp

lemma hoare_ret: "hoare P (ret x) (\<lambda>_. P) E"
  by (simp add: hoare_def ret_def)

lemma hoare_say: "hoare (in_tx c) (say x) (\<lambda>_. in_tx c) E"
  by (simp add: hoare_def say_def in_tx_def)

lemma hoare_say_all: "hoare (in_tx c) (say_all xs) (\<lambda>_. in_tx c) E"
  by (induction xs) (auto intro: hoare_ret hoare_thn hoare_say)

lemma hoare_throw_in_tx: "hoare (in_tx c) (throw_new e) Q (failed_in_tx c)"
  by (simp add: hoare_def throw_new_def in_tx_def failed_in_tx_def)

lemma hoare_query: "hoare (in_tx c) (query k f) (\<lambda>_. in_tx c) (failed_in_tx c)"
  by (simp add: hoare_def query_def invoke_def in_tx_def failed_in_tx_def Let_def
        split: option.splits)

lemma hoare_mutate: "hoare (in_tx c) (mutate k f) (\<lambda>_. in_tx c) (failed_in_tx c)"
  by (simp add: hoare_def mutate_def invoke_def in_tx_def failed_in_tx_def Let_def
        split: option.splits)

lemma hoare_external: "hoare (in_tx c) (external k) (\<lambda>_. in_tx c) (failed_in_tx c)"
  by (simp add: hoare_def external_def invoke_def in_tx_def failed_in_tx_def Let_def
        split: option.splits)

lemma hoare_createCatalogConnection:
  "hoare (in_tx c) (createCatalogConnection k) (\<lambda>_. in_tx c) (failed_in_tx c)"
  by (simp add: hoare_def createCatalogConnection_def invoke_def in_tx_def failed_in_tx_def
        Let_def split: option.splits)

lemma hoare_commit_in_try:
  "hoare (in_tx c) commitTransaction (\<lambda>_. committed) (failed_in_tx c)"
  by (simp add: hoare_def commitTransaction_def invoke_def in_tx_def failed_in_tx_def
        committed_def Let_def split: option.splits)

lemma hoare_start_in_try:
  "hoare (idle s0) startTransaction (\<lambda>_. in_tx (store s0)) (failed_in_tx (store s0))"
  by (simp add: hoare_def startTransaction_def invoke_def in_tx_def failed_in_tx_def
        idle_def Let_def split: option.splits)

lemma handler_envelope:
  assumes "failed_in_tx (store s0) (Domain e) s"
  shows "case rollback_and_rethrow e s of (r, t) \<Rightarrow>
           (case r of Inl x \<Rightarrow> failed_envelope late s0 x t | Inr y \<Rightarrow> Q y t)"
proof -
  from assms have t: "trace s \<noteq> []" "last (trace s) = Raised e"
    and c: "if tx_open s then snapshot s = store s0 else store s = store s0"
    by (simp_all add: failed_in_tx_def)
  have "failed_envelope late s0 (Domain (Failure CPGBackupCtlFailure (what e)))
          ((if tx_open s then s\<lparr> store := snapshot s, tx_open := False \<rparr> else s)
             \<lparr> trace := trace s @ [Call (RollbackTransaction (tx_open s))] \<rparr>)"
    unfolding failed_envelope_def using t c
    by (intro disjI1 exI[of _ e] exI[of _ "tx_open s"]) (simp add: butlast_append)
  then show ?thesis
    by (simp add: rollback_and_rethrow_def thn_def bnd_def rollbackTransaction_def
          rethrow_def sliced_def)
qed

lemma hoare_try_rollback:
  assumes "hoare P m Q (failed_in_tx (store s0))"
  shows "hoare P (try_catch m rollback_and_rethrow) Q (failed_envelope late s0)"
  unfolding hoare_def
proof (intro allI impI)
  fix s assume "P s"
  with assms have m: "case m s of (Inr x, s') \<Rightarrow> Q x s' | (Inl x, s') \<Rightarrow> failed_in_tx (store s0) x s'"
    by (simp add: hoare_def)
  obtain r s' where r: "m s = (r, s')" by (cases "m s")
  show "case try_catch m rollback_and_rethrow s of
          (Inr x, s') \<Rightarrow> Q x s' | (Inl x, s') \<Rightarrow> failed_envelope late s0 x s'"
  proof (cases r)
    case (Inr x)
    with m r show ?thesis by (simp add: try_catch_def)
  next
    case (Inl x)
    with m r have f: "failed_in_tx (store s0) x s'" by simp
    then obtain e where x: "x = Domain e" by (auto simp add: failed_in_tx_def)
    from handler_envelope[OF f[unfolded x], of late Q] r Inl x show ?thesis
      by (simp add: try_catch_def split: prod.splits sum.splits)
  qed
qed

lemma hoare_no_catalog:
  "\<not> tx_open s0 \<Longrightarrow> hoare (\<lambda>s. s = s0) (no_catalog msg) Q (failed_envelope late s0)"
  by (simp add: hoare_def no_catalog_def throw_new_def failed_envelope_def)

lemma hoare_ensure_open:
  "\<not> tx_open s0 \<Longrightarrow>
   hoare (\<lambda>s. s = s0) ensure_open (\<lambda>_. idle s0) (failed_envelope late s0)"
  by (simp add: hoare_def ensure_open_def available_def open_rw_def ret_def invoke_def
        idle_def failed_envelope_def Let_def split: option.splits)

lemma hoare_start:
  "hoare (idle s0) startTransaction (\<lambda>_. in_tx (store s0)) (failed_envelope late s0)"
  by (simp add: hoare_def startTransaction_def invoke_def in_tx_def failed_envelope_def
        idle_def Let_def split: option.splits)

lemma hoare_commit_after_try:
  "hoare (in_tx c) commitTransaction (\<lambda>_. committed) (failed_envelope True s0)"
  by (simp add: hoare_def commitTransaction_def invoke_def in_tx_def failed_envelope_def
        raised_by_commit_def committed_def Let_def butlast_append split: option.splits)

lemmas hoare_steps = hoare_if hoare_thn hoare_bnd hoare_try_rollback hoare_no_catalog
  hoare_start hoare_commit_after_try hoare_start_in_try hoare_commit_in_try hoare_query
  hoare_mutate hoare_external hoare_createCatalogConnection hoare_throw_in_tx hoare_ret
  hoare_say hoare_say_all hoare_ensure_open

lemma env_DropConnection:
  assumes "\<not> tx_open s"
  shows "hoare (\<lambda>s'. s' = s) (DropConnection_execute this flag) (\<lambda>_. committed)
           (failed_envelope True s)"
  unfolding DropConnection_execute_def existsByName_def getCatalogConnection_def dropCatalogConnection_def Let_def
  by (rule hoare_steps assms)+

lemma env_ListConnection:
  assumes "\<not> tx_open s"
  shows "hoare (\<lambda>s'. s' = s) (ListConnection_execute this flag) (\<lambda>_. committed)
           (failed_envelope True s)"
  unfolding ListConnection_execute_def existsByName_def getCatalogConnections_def Let_def
  by (rule hoare_steps assms)+

lemma env_CreateConnection:
  assumes "\<not> tx_open s"
  shows "hoare (\<lambda>s'. s' = s) (CreateConnection_execute this flag) (\<lambda>_. committed)
           (failed_envelope False s)"
  unfolding CreateConnection_execute_def existsByName_def getCatalogConnection_def Let_def
  by (rule hoare_steps assms)+

lemma env_ListBackupCatalog:
  assumes "\<not> tx_open s"
  shows "hoare (\<lambda>s'. s' = s) (ListBackupCatalog_execute this flag) (\<lambda>_. committed)
           (failed_envelope False s)"
  unfolding ListBackupCatalog_execute_def existsByName_def statCatalog_def Let_def
  by (rule hoare_steps assms)+

lemma env_CreateBackupProfile:
  assumes "\<not> tx_open s"
  shows "hoare (\<lambda>s'. s' = s) (CreateBackupProfile_execute this flag) (\<lambda>_. committed)
           (failed_envelope False s)"
  unfolding CreateBackupProfile_execute_def getBackupProfile_def createBackupProfile_def Let_def
  by (rule hoare_steps assms)+

lemma env_VerifyArchive:
  assumes "\<not> tx_open s"
  shows "hoare (\<lambda>s'. s' = s) (VerifyArchive_execute this flag) (\<lambda>_. committed)
           (failed_envelope False s)"
  unfolding VerifyArchive_execute_def existsByName_def Let_def
  by (rule hoare_steps assms)+

lemma env_AlterArchive:
  assumes "\<not> tx_open s"
  shows "hoare (\<lambda>s'. s' = s) (AlterArchive_execute this flag) (\<lambda>_. committed)
           (failed_envelope False s)"
  unfolding AlterArchive_execute_def existsByName_def updateArchiveAttributes_def Let_def
  by (rule hoare_steps assms)+

lemma env_DropArchive:
  assumes "\<not> tx_open s"
  shows "hoare (\<lambda>s'. s' = s) (DropArchive_execute this flag) (\<lambda>_. committed)
           (failed_envelope False s)"
  unfolding DropArchive_execute_def existsByName_def dropArchive_def Let_def
  by (rule hoare_steps assms)+

text \<open>
  The path that the amended statement leaves out. drop-connection calls
  \<open>commitTransaction\<close> after its \<open>try\<close> block (part_000, line 127; so does
  list-connection, line 228), where its siblings call it inside: when that commit fails, the
  failure reaches the caller with the transaction still open and the connection
  deleted in it.
\<close>

lemma drop_connection_commit_outside_try:
  "(let r = DropConnection_execute
              (demo_command\<lparr> coninfo := new_ConnectionDescr\<lparr> con_type := ''basebackup'' \<rparr> \<rparr>)
              False (fresh_world demo_catalog (fail_at 5 E2))
    in fst r = Inl (Domain E2) \<and> tx_open (snd r) \<and> raised_by_commit r
       \<and> connections (store (snd r)) = []
       \<and> trace (snd r)
           = [Call OpenRW, Call StartTransaction, Call (ExistsByName ''a''),
              Call (GetCatalogConnection 1 ''basebackup''),
              Call (DropCatalogConnection ''a'' ''basebackup''),
              Call CommitTransaction, Raised E2])"
  by code_simp

text \<open>
  C8, as amended. For create-connection, drop-connection, list-connection,
  list-backup-catalog, create-backup-profile, verify-archive, alter-archive and
  drop-archive, entered with no transaction open. A normal return leaves the
  transaction committed, the commit being the last call. A failure raised inside
  the \<open>try\<close> block is followed by the rollback, which leaves no transaction open
  and the rows as they were on entry, and the caller receives a
  \<open>CPGBackupCtlFailure\<close> with the message of that failure. Any other failure was
  raised before the \<open>try\<close> block, by the missing catalog handle, by \<open>open_rw\<close> or by
  \<open>startTransaction\<close>: it reaches the caller as it was raised, it is the last event
  after the calls made, no transaction is open and the rows are as they were on
  entry. The statement is not about a failure of the \<open>commitTransaction\<close> that
  drop-connection and list-connection call after their \<open>try\<close> block.
\<close>

theorem single_transaction_envelope:
  assumes "c \<in> single_transaction" and "\<not> tx_open s"
    and "c \<in> commit_after_try \<longrightarrow> \<not> raised_by_commit (execute c this flag s)"
  shows "(fst (execute c this flag s) = Inr () \<longrightarrow>
            \<not> tx_open (snd (execute c this flag s))
            \<and> last (trace (snd (execute c this flag s))) = Call CommitTransaction)
       \<and> (\<forall>x. fst (execute c this flag s) = Inl x \<longrightarrow>
            (\<exists>e0 b. x = Domain (Failure CPGBackupCtlFailure (what e0))
                \<and> last (trace (snd (execute c this flag s))) = Call (RollbackTransaction b)
                \<and> last (butlast (trace (snd (execute c this flag s)))) = Raised e0
                \<and> \<not> tx_open (snd (execute c this flag s))
                \<and> store (snd (execute c this flag s)) = store s)
          \<or> (\<exists>e0. x = Domain e0
                \<and> \<not> tx_open (snd (execute c this flag s))
                \<and> store (snd (execute c this flag s)) = store s
                \<and> (trace (snd (execute c this flag s)) = trace s @ [Raised e0]
                   \<or> trace (snd (execute c this flag s))
                        = trace s @ [Call OpenRW, Raised e0]
                   \<or> trace (snd (execute c this flag s))
                        = trace s @ (if opened s then [] else [Call OpenRW])
                            @ [Call StartTransaction, Raised e0])))"
proof -
  let ?r = "execute c this flag s"
  have "hoare (\<lambda>s'. s' = s) (execute c this flag) (\<lambda>_. committed)
          (failed_envelope (c \<in> commit_after_try) s)"
    using assms(1)
    by (auto simp add: single_transaction_def commit_after_try_def execute_def
          env_DropConnection[OF assms(2)] env_ListConnection[OF assms(2)]
          env_CreateConnection[OF assms(2)] env_ListBackupCatalog[OF assms(2)]
          env_CreateBackupProfile[OF assms(2)] env_VerifyArchive[OF assms(2)]
          env_AlterArchive[OF assms(2)] env_DropArchive[OF assms(2)])
  then have h: "case ?r of
                  (Inr x, s') \<Rightarrow> committed s'
                | (Inl x, s') \<Rightarrow> failed_envelope (c \<in> commit_after_try) s x s'"
    by (simp add: hoare_def)
  obtain y t where r: "?r = (y, t)" by (cases ?r)
  show ?thesis
  proof (cases y)
    case (Inr u)
    with h r show ?thesis by (simp add: committed_def)
  next
    case (Inl x)
    with h r have "failed_envelope (c \<in> commit_after_try) s x t" by simp
    moreover have "\<not> (c \<in> commit_after_try \<and> raised_by_commit (Inl x :: raised + unit, t))"
      using assms(3) r Inl by simp
    ultimately show ?thesis
      using r Inl unfolding failed_envelope_def by simp
  qed
qed

theorem single_transaction_envelope_witness:
  "\<not> tx_open (snd (execute AlterArchiveCatalogCommand demo_command False
        (fresh_world demo_catalog no_faults)))
   \<and> last (trace (snd (execute AlterArchiveCatalogCommand demo_command False
        (fresh_world demo_catalog no_faults)))) = Call CommitTransaction
   \<and> store (snd (execute CreateConnectionCatalogCommand
        (demo_command\<lparr> coninfo := new_ConnectionDescr\<lparr> con_type := ''basebackup'' \<rparr> \<rparr>)
        False (fresh_world demo_catalog no_faults))) = demo_catalog
   \<and> store (snd (execute DropConnectionCatalogCommand
        (demo_command\<lparr> archive_name := ''zz'' \<rparr>)
        False (fresh_world demo_catalog no_faults))) = demo_catalog"
proof -
  let ?s = "fresh_world demo_catalog no_faults"
  let ?b = "demo_command\<lparr> coninfo := new_ConnectionDescr\<lparr> con_type := ''basebackup'' \<rparr> \<rparr>"
  let ?z = "demo_command\<lparr> archive_name := ''zz'' \<rparr>"
  have h1: "AlterArchiveCatalogCommand \<in> single_transaction"
           "CreateConnectionCatalogCommand \<in> single_transaction"
           "DropConnectionCatalogCommand \<in> single_transaction"
    by (simp_all add: single_transaction_def)
  have h2: "\<not> tx_open ?s" by (simp add: fresh_world_def)
  have h3: "AlterArchiveCatalogCommand \<in> commit_after_try \<longrightarrow>
              \<not> raised_by_commit (execute AlterArchiveCatalogCommand demo_command False ?s)"
           "CreateConnectionCatalogCommand \<in> commit_after_try \<longrightarrow>
              \<not> raised_by_commit (execute CreateConnectionCatalogCommand ?b False ?s)"
    by (simp_all add: commit_after_try_def)
  have h4: "\<not> raised_by_commit (execute DropConnectionCatalogCommand ?z False ?s)"
    by code_simp
  have ok: "fst (execute AlterArchiveCatalogCommand demo_command False ?s) = Inr ()"
    by code_simp
  have f: "fst (execute CreateConnectionCatalogCommand ?b False ?s)
             = Inl (Domain (Failure CPGBackupCtlFailure
                 (''archive \"a\" already has a connection of this type configured''
                    @ [CHR 0x0A])))"
    by code_simp
  have l: "last (trace (snd (execute CreateConnectionCatalogCommand ?b False ?s)))
             = Call (RollbackTransaction True)"
    by code_simp
  have g: "fst (execute DropConnectionCatalogCommand ?z False ?s)
             = Inl (Domain (Failure CPGBackupCtlFailure ''archive \"zz\" does not exist''))"
    by code_simp
  have a: "\<not> tx_open (snd (execute AlterArchiveCatalogCommand demo_command False ?s))
      \<and> last (trace (snd (execute AlterArchiveCatalogCommand demo_command False ?s)))
          = Call CommitTransaction"
    using single_transaction_envelope[OF h1(1) h2 h3(1)] ok by simp
  have b: "store (snd (execute CreateConnectionCatalogCommand ?b False ?s)) = store ?s"
    using single_transaction_envelope[OF h1(2) h2 h3(2)] f by auto
  have d: "store (snd (execute DropConnectionCatalogCommand ?z False ?s)) = store ?s"
    using single_transaction_envelope[of DropConnectionCatalogCommand ?s ?z False, OF h1(3) h2] h4 g
    by auto
  from a b d show ?thesis by (simp add: fresh_world_def)
qed

end
